theory Spec2Isabelle
  imports Complex_Main "HOL-Library.Sublist"
begin

section \<open>Data model of \<open>pertnet.py\<close>\<close>

text \<open>
  The class \<open>PertNet\<close> orchestrates an external predictor (\<open>PertNet_Model\<close>), external
  data utilities and the tensor library. The embedding keeps the control flow, the
  attribute updates, the raised exceptions and the object identities of \<open>pertnet.py\<close>;
  the collaborators that are not part of that file are parameters (records of functions).
  Tensor entries are real numbers: rounding and NaN of floating point are not modelled,
  except for the validation metric compared in the training loop, which has its own type.
\<close>

subsection \<open>Exceptions\<close>

datatype error =
    ValueError string
  | KeyError string
  | TypeError string
  | AttributeError string
  | UnboundLocalError string
  | StopIteration
  | FileNotFoundError
  | NotADirectoryError
  | UnpicklingError
  | RuntimeError

subsection \<open>Python values held by the configuration dictionary\<close>

datatype pyval =
    PNone
  | PBool bool
  | PInt int
  | PFloat real
  | PStr string
  | PEdges "(nat \<times> nat) list"
  | PWeights "real list"

type_synonym pydict = "string \<rightharpoonup> pyval"

text \<open>\<open>d[k]\<close>: a missing key raises \<open>KeyError\<close>.\<close>

definition getitem :: "pydict \<Rightarrow> string \<Rightarrow> error + pyval" where
  "getitem d k = (case d k of None \<Rightarrow> Inl (KeyError k) | Some v \<Rightarrow> Inr v)"

text \<open>
  The truth value Python gives an object in \<open>if x:\<close>. An edge-index tensor has an even
  number of elements, so its truth value is always ambiguous; a weight tensor has a truth
  value only when it holds exactly one element.
\<close>

fun py_truth :: "pyval \<Rightarrow> error + bool" where
  "py_truth PNone = Inr False"
| "py_truth (PBool b) = Inr b"
| "py_truth (PInt i) = Inr (i \<noteq> 0)"
| "py_truth (PFloat r) = Inr (r \<noteq> 0)"
| "py_truth (PStr s) = Inr (s \<noteq> [])"
| "py_truth (PEdges es) = Inl RuntimeError"
| "py_truth (PWeights ws) = (case ws of [w] \<Rightarrow> Inr (w \<noteq> 0) | _ \<Rightarrow> Inl RuntimeError)"

subsection \<open>Modules, the object store and the instance\<close>

type_synonym tensor = "real list"

text \<open>A \<open>state_dict\<close> is an ordered dictionary from parameter names to tensors.\<close>

type_synonym state_dict = "(string \<times> tensor) list"

text \<open>
  An \<open>nn.Module\<close> object: its learnable parameters, the \<open>.grad\<close> attribute of each
  parameter (absent when \<open>None\<close>) and the device it lives on.
\<close>

record module =
  params :: state_dict
  grad :: "string \<rightharpoonup> tensor"
  dev :: string

text \<open>
  A \<open>PertNet\<close> instance. Module objects live in \<open>heap\<close> and the attributes \<open>model\<close> and
  \<open>best_model\<close> hold addresses, so that two attributes naming one object are visible as
  such; an attribute not yet assigned is \<open>None\<close>. \<open>nxt\<close> is the next unused address.
  \<open>ctrl\<close> holds the rows of \<open>adata\<close> whose condition is \<open>'ctrl'\<close>.
\<close>

record pertnet =
  device :: string
  config :: "pydict option"
  gene_list :: "string list"
  num_genes :: nat
  ctrl :: "real list list"
  ctrl_adata :: "real list list option"
  model :: "nat option"
  best_model :: "nat option"
  heap :: "nat \<Rightarrow> module"
  nxt :: nat

text \<open>\<open>deepcopy(obj)\<close>: a new object with the same content at a fresh address.\<close>

definition deepcopy :: "nat \<Rightarrow> pertnet \<Rightarrow> nat \<times> pertnet" where
  "deepcopy a self =
     (nxt self, self\<lparr>heap := (heap self)(nxt self := heap self a), nxt := Suc (nxt self)\<rparr>)"

text \<open>\<open>obj.to(device)\<close> moves the module in place and returns the same object.\<close>

definition to_device :: "nat \<Rightarrow> string \<Rightarrow> pertnet \<Rightarrow> pertnet" where
  "to_device a d self = self\<lparr>heap := (heap self)(a := (heap self a)\<lparr>dev := d\<rparr>)\<rparr>"

text \<open>
  \<open>PertNet.__init__\<close>, from the fields of \<open>pert_data\<close> that the methods below read: the
  device, the gene names and the control rows of the expression matrix. No model and no
  configuration exist yet; the store is empty.
\<close>

definition PertNet_init :: "string \<Rightarrow> string list \<Rightarrow> real list list \<Rightarrow> pertnet" where
  "PertNet_init d genes ctrl_rows =
     \<lparr>device = d, config = None, gene_list = genes, num_genes = length genes,
      ctrl = ctrl_rows, ctrl_adata = None, model = None, best_model = None,
      heap = (\<lambda>_. \<lparr>params = [], grad = Map.empty, dev = []\<rparr>), nxt = 0\<rparr>"

subsection \<open>The persisted model directory\<close>

text \<open>
  The file system holds the directories that exist and the artifacts, each under its
  directory and its name; \<open>pickle\<close> and \<open>torch.save\<close> are taken to store the value they
  are given and to read it back unchanged. The current directory (the parent of a
  relative name without a slash) and the root always exist. Paths are taken in normal
  form: single slashes and no trailing slash. Permissions are not modelled.
\<close>

datatype artifact = Pickled pydict | TorchSaved state_dict

record filesystem =
  dirs :: "string set"
  files :: "string \<times> string \<rightharpoonup> artifact"

text \<open>\<open>os.path.dirname\<close> and \<open>os.path.basename\<close>.\<close>

definition dirname :: "string \<Rightarrow> string" where
  "dirname p =
     (if CHR ''/'' \<in> set p
      then (let d = rev (drop 1 (dropWhile (\<lambda>c. c \<noteq> CHR ''/'') (rev p)))
            in if d = [] then ''/'' else d)
      else [])"

definition basename :: "string \<Rightarrow> string" where
  "basename p = rev (takeWhile (\<lambda>c. c \<noteq> CHR ''/'') (rev p))"

definition is_dir :: "filesystem \<Rightarrow> string \<Rightarrow> bool" where
  "is_dir fs p = (p = ''/'' \<or> p \<in> dirs fs)"

definition is_file :: "filesystem \<Rightarrow> string \<Rightarrow> bool" where
  "is_file fs p = (files fs (dirname p, basename p) \<noteq> None)"

text \<open>\<open>os.path.exists(p)\<close>: a directory or a regular file of that name.\<close>

definition os_path_exists :: "filesystem \<Rightarrow> string \<Rightarrow> bool" where
  "os_path_exists fs p = (is_dir fs p \<or> is_file fs p)"

text \<open>
  \<open>os.mkdir(p)\<close> for a path that does not exist: it fails when the name is empty or the
  parent is missing (\<open>FileNotFoundError\<close>) or the parent is a regular file
  (\<open>NotADirectoryError\<close>), and creates the one directory otherwise.
\<close>

definition os_mkdir :: "string \<Rightarrow> filesystem \<Rightarrow> error + filesystem" where
  "os_mkdir p fs =
     (if p = [] then Inl FileNotFoundError
      else if dirname p = [] \<or> is_dir fs (dirname p)
      then Inr (fs\<lparr>dirs := insert p (dirs fs)\<rparr>)
      else if is_file fs (dirname p) then Inl NotADirectoryError
      else Inl FileNotFoundError)"

text \<open>
  Opening \<open>os.path.join(d, name)\<close> for writing and storing the artifact: it fails when
  \<open>d\<close> is not a directory.
\<close>

definition write_file :: "string \<Rightarrow> string \<Rightarrow> artifact \<Rightarrow> filesystem \<Rightarrow> error + filesystem" where
  "write_file d name a fs =
     (if is_dir fs d then Inr (fs\<lparr>files := (files fs)((d, name) \<mapsto> a)\<rparr>)
      else if is_file fs d then Inl NotADirectoryError
      else Inl FileNotFoundError)"

section \<open>\<open>PertNet.save_model\<close>\<close>

text \<open>Lines 138 and 139: the directory is created when the path does not exist.\<close>

definition ensure_dir :: "string \<Rightarrow> filesystem \<Rightarrow> error + filesystem" where
  "ensure_dir path fs = (if \<not> os_path_exists fs path then os_mkdir path fs else Inr fs)"

text \<open>
  \<open>save_model\<close> creates the directory first, checks the configuration next, and then
  writes the two artifacts. An exception leaves the file system as the statements
  before it made it.
\<close>

definition save_model :: "string \<Rightarrow> pertnet \<Rightarrow> filesystem \<Rightarrow> (error + unit) \<times> filesystem" where
  "save_model path self fs =
     (case ensure_dir path fs of
        Inl e \<Rightarrow> (Inl e, fs)
      | Inr fs1 \<Rightarrow>
          (case config self of
             None \<Rightarrow> (Inl (ValueError ''No model is initialized...''), fs1)
           | Some cfg \<Rightarrow>
               (case write_file path ''config.pkl'' (Pickled cfg) fs1 of
                  Inl e \<Rightarrow> (Inl e, fs1)
                | Inr fs2 \<Rightarrow>
                    (case best_model self of
                       None \<Rightarrow> (Inl (AttributeError ''best_model''), fs2)
                     | Some b \<Rightarrow>
                         (case write_file path ''model.pt''
                                 (TorchSaved (params (heap self b))) fs2 of
                            Inl e \<Rightarrow> (Inl e, fs2)
                          | Inr fs3 \<Rightarrow> (Inr (), fs3))))))"

text \<open>
  The target directory exists or can be created: lines 138 and 139 complete, and the
  path is a directory afterwards.
\<close>

definition dir_usable :: "filesystem \<Rightarrow> string \<Rightarrow> bool" where
  "dir_usable fs path =
     (case ensure_dir path fs of Inl e \<Rightarrow> False | Inr fs1 \<Rightarrow> is_dir fs1 path)"

section \<open>\<open>PertNet.model_initialize\<close>\<close>

text \<open>The collaborators of the model container, which \<open>pertnet.py\<close> imports.\<close>

record model_ext =
  get_similarity_network :: "string \<Rightarrow> pyval \<Rightarrow> pyval \<Rightarrow> pyval \<times> pyval"
  PertNet_Model :: "pydict \<Rightarrow> state_dict"

text \<open>
  \<open>get_similarity_network M kind threshold k\<close> stands for the call of
  \<open>get_similarity_network\<close> on the instance's data followed by \<open>GeneSimNetwork\<close>, and gives
  the pair \<open>(edge_index, edge_weight)\<close>. \<open>PertNet_Model M cfg\<close> gives the learnable
  parameters of the predictor built from \<open>cfg\<close>.
\<close>

definition hyper_names :: "string list" where
  "hyper_names =
     [''hidden_size'', ''num_go_gnn_layers'', ''num_gene_gnn_layers'',
      ''decoder_hidden_size'', ''num_similar_genes_go_graph'',
      ''num_similar_genes_co_express_graph'', ''coexpress_threshold'', ''uncertainty'',
      ''uncertainty_reg'', ''direction_lambda'', ''G_go'', ''G_go_weight'',
      ''G_coexpress'', ''G_coexpress_weight'']"

text \<open>The default of each keyword parameter of \<open>model_initialize\<close>.\<close>

definition default_arg :: "string \<Rightarrow> pyval" where
  "default_arg k =
     (if k = ''hidden_size'' then PInt 64
      else if k = ''num_go_gnn_layers'' then PInt 1
      else if k = ''num_gene_gnn_layers'' then PInt 1
      else if k = ''decoder_hidden_size'' then PInt 16
      else if k = ''num_similar_genes_go_graph'' then PInt 20
      else if k = ''num_similar_genes_co_express_graph'' then PInt 20
      else if k = ''coexpress_threshold'' then PFloat (4 / 10)
      else if k = ''uncertainty'' then PBool False
      else if k = ''uncertainty_reg'' then PInt 1
      else if k = ''direction_lambda'' then PFloat (1 / 10)
      else PNone)"

text \<open>The value a keyword parameter has in the body: the one passed, or the default.\<close>

definition arg :: "pydict \<Rightarrow> string \<Rightarrow> pyval" where
  "arg kwargs k = (case kwargs k of Some v \<Rightarrow> v | None \<Rightarrow> default_arg k)"

text \<open>The dictionary literal assigned to \<open>self.config\<close>.\<close>

definition config_literal :: "pydict \<Rightarrow> pertnet \<Rightarrow> pydict" where
  "config_literal kwargs self =
     (\<lambda>k. if k = ''device'' then Some (PStr (device self))
          else if k = ''num_genes'' then Some (PInt (int (num_genes self)))
          else if k \<in> set hyper_names then Some (arg kwargs k)
          else None)"

text \<open>The two blocks that compute a similarity graph when none was supplied.\<close>

definition fill_coexpress :: "model_ext \<Rightarrow> pydict \<Rightarrow> pydict \<Rightarrow> pydict" where
  "fill_coexpress M kwargs cfg =
     (if cfg ''G_coexpress'' = Some PNone then
        (let (ei, ew) = get_similarity_network M ''co-express''
                          (arg kwargs ''coexpress_threshold'')
                          (arg kwargs ''num_similar_genes_co_express_graph'')
         in cfg(''G_coexpress'' \<mapsto> ei, ''G_coexpress_weight'' \<mapsto> ew))
      else cfg)"

definition fill_go :: "model_ext \<Rightarrow> pydict \<Rightarrow> pydict \<Rightarrow> pydict" where
  "fill_go M kwargs cfg =
     (if cfg ''G_go'' = Some PNone then
        (let (ei, ew) = get_similarity_network M ''go''
                          (arg kwargs ''coexpress_threshold'')
                          (arg kwargs ''num_similar_genes_go_graph'')
         in cfg(''G_go'' \<mapsto> ei, ''G_go_weight'' \<mapsto> ew))
      else cfg)"

text \<open>The configuration after lines 77 to 110.\<close>

definition built_config :: "model_ext \<Rightarrow> pydict \<Rightarrow> pertnet \<Rightarrow> pydict" where
  "built_config M kwargs self =
     fill_go M kwargs (fill_coexpress M kwargs (config_literal kwargs self))"

text \<open>
  \<open>model_initialize(**kwargs)\<close>. A keyword that is not a parameter of the method is a
  \<open>TypeError\<close> of the call. The new predictor is allocated, moved to the device, and
  \<open>best_model\<close> is a deep copy of it.
\<close>

definition model_initialize ::
  "model_ext \<Rightarrow> pydict \<Rightarrow> pertnet \<Rightarrow> (error + unit) \<times> pertnet" where
  "model_initialize M kwargs self =
     (if \<not> dom kwargs \<subseteq> set hyper_names then
        (Inl (TypeError ''unexpected keyword argument''), self)
      else
        let cfg = built_config M kwargs self;
            a = nxt self;
            self1 = self\<lparr>config := Some cfg,
                         heap := (heap self)(a := \<lparr>params = PertNet_Model M cfg,
                                                    grad = Map.empty, dev = device self\<rparr>),
                         nxt := Suc a,
                         model := Some a\<rparr>;
            (b, self2) = deepcopy a self1
        in (Inr (), self2\<lparr>best_model := Some b\<rparr>))"

section \<open>\<open>PertNet.load_pretrained\<close>\<close>

text \<open>\<open>d[name] = v\<close> on an ordered dictionary: a known key keeps its place.\<close>

fun od_update :: "string \<Rightarrow> tensor \<Rightarrow> state_dict \<Rightarrow> state_dict" where
  "od_update k v [] = [(k, v)]"
| "od_update k v ((k', v') # rest) =
     (if k = k' then (k, v) # rest else (k', v') # od_update k v rest)"

text \<open>
  Lines 124 to 131: when the first key starts with \<open>module.\<close>, the first seven characters
  of every key are dropped. \<open>next(iter(state_dict))\<close> raises \<open>StopIteration\<close> on an empty
  dictionary.
\<close>

definition strip_module :: "state_dict \<Rightarrow> error + state_dict" where
  "strip_module sd =
     (case sd of
        [] \<Rightarrow> Inl StopIteration
      | (k, _) # _ \<Rightarrow>
          if take 7 k = ''module.''
          then Inr (foldl (\<lambda>new (k, v). od_update (drop 7 k) v new) [] sd)
          else Inr sd)"

text \<open>
  \<open>module.load_state_dict(sd)\<close> of the tensor library, strict: every parameter of the
  module must be in \<open>sd\<close> with its size, \<open>sd\<close> must hold no other key, and the values are
  copied into the module's own parameters in place.
\<close>

definition load_state_dict :: "state_dict \<Rightarrow> module \<Rightarrow> error + module" where
  "load_state_dict sd m =
     (if list_all (\<lambda>(k, t). case map_of sd k of None \<Rightarrow> False
                              | Some v \<Rightarrow> length v = length t) (params m)
         \<and> list_all (\<lambda>(k, v). k \<in> fst ` set (params m)) sd
      then Inr (m\<lparr>params := map (\<lambda>(k, t). (k, case map_of sd k of None \<Rightarrow> t
                                                   | Some v \<Rightarrow> v)) (params m)\<rparr>)
      else Inl RuntimeError)"

definition load_pretrained ::
  "model_ext \<Rightarrow> string \<Rightarrow> filesystem \<Rightarrow> pertnet \<Rightarrow> (error + unit) \<times> pertnet" where
  "load_pretrained M path fs self =
     (case files fs (path, ''config.pkl'') of
        None \<Rightarrow> (Inl FileNotFoundError, self)
      | Some (TorchSaved _) \<Rightarrow> (Inl UnpicklingError, self)
      | Some (Pickled loaded) \<Rightarrow>
          if loaded ''device'' = None then (Inl (KeyError ''device''), self)
          else if loaded ''num_genes'' = None then (Inl (KeyError ''num_genes''), self)
          else
            let cfg = loaded(''device'' := None, ''num_genes'' := None) in
            (case model_initialize M cfg self of
               (Inl e, self1) \<Rightarrow> (Inl e, self1)
             | (Inr _, self1) \<Rightarrow>
                 let self2 = self1\<lparr>config := Some cfg\<rparr> in
                 (case files fs (path, ''model.pt'') of
                    None \<Rightarrow> (Inl FileNotFoundError, self2)
                  | Some (Pickled _) \<Rightarrow> (Inl UnpicklingError, self2)
                  | Some (TorchSaved saved) \<Rightarrow>
                      (case strip_module saved of
                         Inl e \<Rightarrow> (Inl e, self2)
                       | Inr sd \<Rightarrow>
                           (case model self2 of
                              None \<Rightarrow> (Inl (AttributeError ''model''), self2)
                            | Some a \<Rightarrow>
                                (case load_state_dict sd (heap self2 a) of
                                   Inl e \<Rightarrow> (Inl e, self2)
                                 | Inr m \<Rightarrow>
                                     let self3 = self2\<lparr>heap := (heap self2)(a := m)\<rparr>;
                                         self4 = to_device a (device self3) self3
                                     in (Inr (), self4\<lparr>best_model := model self4\<rparr>)))))))"

section \<open>\<open>PertNet.predict\<close>\<close>

text \<open>
  The collaborators of the predictor: the dataset builder of \<open>utils\<close> and the forward
  pass of the predictor, which returns the prediction and, in uncertainty mode, the
  log-variance as well. Both return one row per cell.
\<close>

record 'g predict_ext =
  create_cell_graph_dataset_for_prediction ::
    "string list \<Rightarrow> real list list \<Rightarrow> string list \<Rightarrow> string \<Rightarrow> 'g list"
  forward :: "module \<Rightarrow> 'g list \<Rightarrow> real list list"
  forward_logvar :: "module \<Rightarrow> 'g list \<Rightarrow> real list list"

definition gene_error :: string where
  "gene_error =
     ''The gene is not in the perturbation graph. Please select from PertNet.gene_list!''"

text \<open>Lines 154 to 157: the two nested loops that validate the gene names.\<close>

fun check_pert :: "string list \<Rightarrow> string list \<Rightarrow> error + unit" where
  "check_pert gl [] = Inr ()"
| "check_pert gl (i # rest) =
     (if i \<notin> set gl then Inl (ValueError gene_error) else check_pert gl rest)"

fun check_pert_list :: "string list \<Rightarrow> string list list \<Rightarrow> error + unit" where
  "check_pert_list gl [] = Inr ()"
| "check_pert_list gl (pert # rest) =
     (case check_pert gl pert of Inl e \<Rightarrow> Inl e | Inr _ \<Rightarrow> check_pert_list gl rest)"

text \<open>\<open>'_'.join(pert)\<close>.\<close>

fun join_underscore :: "string list \<Rightarrow> string" where
  "join_underscore [] = []"
| "join_underscore [g] = g"
| "join_underscore (g # h # rest) = g @ ''_'' @ join_underscore (h # rest)"

text \<open>
  \<open>next(iter(DataLoader(cg, 300, shuffle = False)))\<close>: the first batch holds the first
  300 elements of the dataset, or all of it when it is shorter; an empty dataset has no
  batch.
\<close>

definition first_batch :: "'g list \<Rightarrow> error + 'g list" where
  "first_batch cg = (if cg = [] then Inl StopIteration else Inr (take 300 cg))"

text \<open>\<open>np.mean(v)\<close> of a vector and \<open>np.mean(m, axis = 0)\<close> of a matrix given by its rows.\<close>

definition mean :: "real list \<Rightarrow> real" where
  "mean v = sum_list v / real (length v)"

definition mean_axis0 :: "real list list \<Rightarrow> real list" where
  "mean_axis0 rows =
     (case rows of
        [] \<Rightarrow> []
      | r # _ \<Rightarrow> map (\<lambda>j. mean (map (\<lambda>row. row ! j) rows)) [0..<length r])"

text \<open>
  The loop of lines 165 to 178, with the two result dictionaries as accumulators. The
  log-variance dictionary is only written in uncertainty mode.
\<close>

fun predict_loop ::
  "'g predict_ext \<Rightarrow> pertnet \<Rightarrow> bool \<Rightarrow> module \<Rightarrow> string list list \<Rightarrow>
   (string \<rightharpoonup> real list) \<times> (string \<rightharpoonup> real list) \<Rightarrow>
   error + (string \<rightharpoonup> real list) \<times> (string \<rightharpoonup> real list)" where
  "predict_loop P self unc m [] acc = Inr acc"
| "predict_loop P self unc m (pert # rest) (results_pred, results_logvar) =
     (case ctrl_adata self of
        None \<Rightarrow> Inl (AttributeError ''ctrl_adata'')
      | Some cells \<Rightarrow>
          let cg = create_cell_graph_dataset_for_prediction P pert cells
                     (gene_list self) (device self)
          in (case first_batch cg of
                Inl e \<Rightarrow> Inl e
              | Inr batch \<Rightarrow>
                  let results_logvar' =
                        (if unc
                         then results_logvar(join_underscore pert \<mapsto>
                                mean_axis0 (forward_logvar P m batch))
                         else results_logvar);
                      results_pred' =
                        results_pred(join_underscore pert \<mapsto>
                          mean_axis0 (forward P m batch))
                  in predict_loop P self unc m rest (results_pred', results_logvar')))"

text \<open>
  \<open>predict\<close> returns the prediction dictionary, and in uncertainty mode the dictionary
  of uncertainty scores with it.
\<close>

definition predict ::
  "'g predict_ext \<Rightarrow> string list list \<Rightarrow> pertnet \<Rightarrow>
   (error + (string \<rightharpoonup> real list) \<times> (string \<rightharpoonup> real) option) \<times> pertnet" where
  "predict P pert_list self =
     (let self1 = self\<lparr>ctrl_adata := Some (ctrl self)\<rparr> in
      case check_pert_list (gene_list self1) pert_list of
        Inl e \<Rightarrow> (Inl e, self1)
      | Inr _ \<Rightarrow>
          (case config self1 of
             None \<Rightarrow> (Inl (TypeError ''NoneType object is not subscriptable''), self1)
           | Some cfg \<Rightarrow>
               (case getitem cfg ''uncertainty'' of
                  Inl e \<Rightarrow> (Inl e, self1)
                | Inr u \<Rightarrow>
                    (case py_truth u of
                       Inl e \<Rightarrow> (Inl e, self1)
                     | Inr unc \<Rightarrow>
                         (case best_model self1 of
                            None \<Rightarrow> (Inl (AttributeError ''best_model''), self1)
                          | Some b \<Rightarrow>
                              let self2 = to_device b (device self1) self1 in
                              (case predict_loop P self2 unc (heap self2 b) pert_list
                                      (Map.empty, Map.empty) of
                                 Inl e \<Rightarrow> (Inl e, self2)
                               | Inr (results_pred, results_logvar) \<Rightarrow>
                                   if unc
                                   then (Inr (results_pred,
                                              Some (\<lambda>i. map_option (\<lambda>j. exp (- mean j))
                                                           (results_logvar i))), self2)
                                   else (Inr (results_pred, None), self2)))))))"

text \<open>
  Names for what one iteration of the loop computes for a perturbation, given the
  address \<open>b\<close> of the best model: the module after \<open>.to(self.device)\<close>, the dataset of
  line 166, the batch of line 168, and the two dictionary entries of lines 174 and 178.
\<close>

definition best_module :: "pertnet \<Rightarrow> nat \<Rightarrow> module" where
  "best_module self b = (heap self b)\<lparr>dev := device self\<rparr>"

definition pert_dataset :: "'g predict_ext \<Rightarrow> pertnet \<Rightarrow> string list \<Rightarrow> 'g list" where
  "pert_dataset P self pert =
     create_cell_graph_dataset_for_prediction P pert (ctrl self) (gene_list self) (device self)"

definition pert_batch :: "'g predict_ext \<Rightarrow> pertnet \<Rightarrow> string list \<Rightarrow> 'g list" where
  "pert_batch P self pert = take 300 (pert_dataset P self pert)"

definition pred_vector :: "'g predict_ext \<Rightarrow> pertnet \<Rightarrow> nat \<Rightarrow> string list \<Rightarrow> real list" where
  "pred_vector P self b pert =
     mean_axis0 (forward P (best_module self b) (pert_batch P self pert))"

definition logvar_vector :: "'g predict_ext \<Rightarrow> pertnet \<Rightarrow> nat \<Rightarrow> string list \<Rightarrow> real list" where
  "logvar_vector P self b pert =
     mean_axis0 (forward_logvar P (best_module self b) (pert_batch P self pert))"

section \<open>\<open>PertNet.train\<close>\<close>

text \<open>
  The validation metric is a floating-point number compared with \<open><\<close>: it may be
  infinite or NaN, and every comparison with NaN is false.
\<close>

datatype fl = Fin real | PInf | NInf | NaN

fun fl_less :: "fl \<Rightarrow> fl \<Rightarrow> bool" where
  "fl_less NaN _ = False"
| "fl_less _ NaN = False"
| "fl_less (Fin x) (Fin y) = (x < y)"
| "fl_less (Fin x) PInf = True"
| "fl_less (Fin x) NInf = False"
| "fl_less PInf _ = False"
| "fl_less NInf NInf = False"
| "fl_less NInf _ = True"

definition fl_le :: "fl \<Rightarrow> fl \<Rightarrow> bool" where
  "fl_le a b = (fl_less a b \<or> (a = b \<and> a \<noteq> NaN))"

text \<open>
  The collaborators of the trainer: the batches of the training loader; the forward
  pass, loss and backpropagation of one batch, which give the \<open>.grad\<close> of every parameter
  (from the uncertainty flag, \<open>uncertainty_reg\<close> when the flag is set, \<open>direction_lambda\<close>,
  the module and the batch); the optimizer with its state and its update; the scheduler;
  and \<open>evaluate\<close> followed by \<open>compute_metrics\<close> on the validation loader, read at
  \<open>'mse_de'\<close>.
\<close>

record ('b, 'o) train_ext =
  train_loader :: "'b list"
  loss_backward :: "bool \<Rightarrow> pyval option \<Rightarrow> pyval \<Rightarrow> module \<Rightarrow> 'b \<Rightarrow> (string \<rightharpoonup> tensor)"
  Adam :: "state_dict \<Rightarrow> real \<Rightarrow> real \<Rightarrow> 'o"
  optimizer_step :: "'o \<Rightarrow> state_dict \<Rightarrow> (string \<rightharpoonup> tensor) \<Rightarrow> 'o \<times> state_dict"
  scheduler_step :: "'o \<Rightarrow> 'o"
  val_mse_de :: "pyval \<Rightarrow> module \<Rightarrow> fl"

text \<open>
  \<open>nn.utils.clip_grad_value_(parameters, clip_value)\<close> of the tensor library: every
  gradient that is not \<open>None\<close> is clamped in place to \<open>[-clip_value, clip_value]\<close>.
\<close>

definition clamp :: "real \<Rightarrow> real \<Rightarrow> real \<Rightarrow> real" where
  "clamp lo hi x = min (max x lo) hi"

definition clip_grad_value :: "real \<Rightarrow> (string \<rightharpoonup> tensor) \<Rightarrow> (string \<rightharpoonup> tensor)" where
  "clip_grad_value clip_value g = (\<lambda>k. map_option (map (clamp (- clip_value) clip_value)) (g k))"

text \<open>The local variables of \<open>train\<close> together with the instance.\<close>

record 'o train_state =
  optimizer :: 'o
  min_val :: fl
  best_local :: "nat option"
  inst :: pertnet

text \<open>
  The gradient computation of lines 213 to 228 for the module at address \<open>a\<close>:
  \<open>zero_grad\<close>, then the forward pass, the loss of the mode and \<open>loss.backward()\<close>.
\<close>

definition compute_grad ::
  "('b, 'o) train_ext \<Rightarrow> pydict \<Rightarrow> module \<Rightarrow> 'b \<Rightarrow> error + module" where
  "compute_grad T cfg m batch =
     (case getitem cfg ''uncertainty'' of
        Inl e \<Rightarrow> Inl e
      | Inr u \<Rightarrow>
          (case py_truth u of
             Inl e \<Rightarrow> Inl e
           | Inr unc \<Rightarrow>
               if unc then
                 (case getitem cfg ''uncertainty_reg'' of
                    Inl e \<Rightarrow> Inl e
                  | Inr reg \<Rightarrow>
                      (case getitem cfg ''direction_lambda'' of
                         Inl e \<Rightarrow> Inl e
                       | Inr dl \<Rightarrow> Inr (m\<lparr>grad := loss_backward T True (Some reg) dl m batch\<rparr>)))
               else
                 (case getitem cfg ''direction_lambda'' of
                    Inl e \<Rightarrow> Inl e
                  | Inr dl \<Rightarrow> Inr (m\<lparr>grad := loss_backward T False None dl m batch\<rparr>))))"

text \<open>
  One iteration of the loop over the training batches (lines 211 to 230). The
  module of \<open>self.model\<close> is updated in place: its gradients are cleared, computed,
  clipped at \<open>1.0\<close>, and the optimizer then reads the clipped gradients.
\<close>

definition train_step ::
  "('b, 'o) train_ext \<Rightarrow> 'o train_state \<Rightarrow> 'b \<Rightarrow> error option \<times> 'o train_state" where
  "train_step T ls batch =
     (let self = inst ls in
      case model self of
        None \<Rightarrow> (Some (AttributeError ''model''), ls)
      | Some a \<Rightarrow>
          let m0 = (heap self a)\<lparr>grad := Map.empty\<rparr>;
              ls0 = ls\<lparr>inst := self\<lparr>heap := (heap self)(a := m0)\<rparr>\<rparr>
          in (case config self of
                None \<Rightarrow> (Some (TypeError ''NoneType object is not subscriptable''), ls0)
              | Some cfg \<Rightarrow>
                  (case compute_grad T cfg m0 batch of
                     Inl e \<Rightarrow> (Some e, ls0)
                   | Inr m1 \<Rightarrow>
                       let m2 = m1\<lparr>grad := clip_grad_value 1 (grad m1)\<rparr>;
                           (opt, ps) = optimizer_step T (optimizer ls) (params m2) (grad m2);
                           m3 = m2\<lparr>params := ps\<rparr>
                       in (None, ls\<lparr>optimizer := opt,
                                    inst := self\<lparr>heap := (heap self)(a := m3)\<rparr>\<rparr>))))"

fun train_batches ::
  "('b, 'o) train_ext \<Rightarrow> 'o train_state \<Rightarrow> 'b list \<Rightarrow> error option \<times> 'o train_state" where
  "train_batches T ls [] = (None, ls)"
| "train_batches T ls (batch # rest) =
     (case train_step T ls batch of
        (Some e, ls') \<Rightarrow> (Some e, ls')
      | (None, ls') \<Rightarrow> train_batches T ls' rest)"

text \<open>
  Lines 266 to 268: the comparison of the epoch's validation metric with the running
  minimum, and the snapshot of the current model when it is smaller.
\<close>

definition checkpoint :: "fl \<Rightarrow> nat \<Rightarrow> 'o train_state \<Rightarrow> 'o train_state" where
  "checkpoint v a ls =
     (if fl_less v (min_val ls)
      then (let (b, self') = deepcopy a (inst ls)
            in ls\<lparr>min_val := v, best_local := Some b, inst := self'\<rparr>)
      else ls)"

text \<open>
  The validation metric of the current model, as lines 242 and 244 compute it from the
  configuration's uncertainty flag and the module of \<open>self.model\<close>.
\<close>

definition validation ::
  "('b, 'o) train_ext \<Rightarrow> 'o train_state \<Rightarrow> error + fl \<times> nat" where
  "validation T ls =
     (case model (inst ls) of
        None \<Rightarrow> Inl (AttributeError ''model'')
      | Some a \<Rightarrow>
          (case config (inst ls) of
             None \<Rightarrow> Inl (TypeError ''NoneType object is not subscriptable'')
           | Some cfg \<Rightarrow>
               (case getitem cfg ''uncertainty'' of
                  Inl e \<Rightarrow> Inl e
                | Inr u \<Rightarrow> Inr (val_mse_de T u (heap (inst ls) a), a))))"

text \<open>One epoch: lines 209 to 268.\<close>

definition epoch ::
  "('b, 'o) train_ext \<Rightarrow> 'o train_state \<Rightarrow> error option \<times> 'o train_state" where
  "epoch T ls =
     (case train_batches T ls (train_loader T) of
        (Some e, ls1) \<Rightarrow> (Some e, ls1)
      | (None, ls1) \<Rightarrow>
          let ls2 = ls1\<lparr>optimizer := scheduler_step T (optimizer ls1)\<rparr> in
          (case validation T ls2 of
             Inl e \<Rightarrow> (Some e, ls2)
           | Inr (v, a) \<Rightarrow> (None, checkpoint v a ls2)))"

fun run_epochs ::
  "('b, 'o) train_ext \<Rightarrow> nat \<Rightarrow> 'o train_state \<Rightarrow> error option \<times> 'o train_state" where
  "run_epochs T 0 ls = (None, ls)"
| "run_epochs T (Suc n) ls =
     (case epoch T ls of
        (Some e, ls') \<Rightarrow> (Some e, ls')
      | (None, ls') \<Rightarrow> run_epochs T n ls')"

text \<open>
  The local state when the epoch loop starts (lines 200 to 205): the model moved to the
  device, the optimizer built from its parameters, the running minimum infinite, and
  the local name \<open>best_model\<close> not yet bound.
\<close>

definition train_start ::
  "('b, 'o) train_ext \<Rightarrow> real \<Rightarrow> real \<Rightarrow> nat \<Rightarrow> pertnet \<Rightarrow> 'o train_state" where
  "train_start T lr weight_decay a self =
     (let self1 = to_device a (device self) self
      in \<lparr>optimizer = Adam T (params (heap self1 a)) lr weight_decay,
          min_val = PInf, best_local = None, inst = self1\<rparr>)"

text \<open>
  \<open>train\<close> up to line 271, where the local \<open>best_model\<close> becomes the attribute; the name
  is unbound when no epoch promoted a model. The test report that follows reads the
  best model and changes neither model.
\<close>

definition train ::
  "('b, 'o) train_ext \<Rightarrow> int \<Rightarrow> real \<Rightarrow> real \<Rightarrow> pertnet \<Rightarrow> (error + unit) \<times> pertnet" where
  "train T epochs lr weight_decay self =
     (case model self of
        None \<Rightarrow> (Inl (AttributeError ''model''), self)
      | Some a \<Rightarrow>
          (case run_epochs T (nat epochs) (train_start T lr weight_decay a self) of
             (Some e, ls) \<Rightarrow> (Inl e, inst ls)
           | (None, ls) \<Rightarrow>
               (case best_local ls of
                  None \<Rightarrow> (Inl (UnboundLocalError ''best_model''), inst ls)
                | Some b \<Rightarrow> (Inr (), (inst ls)\<lparr>best_model := Some b\<rparr>))))"

text \<open>
  The invariant of the epoch loop used in the proofs below, for the address \<open>a\<close> of the
  current model and the configuration \<open>cfg0\<close> of the instance: the running minimum is
  never NaN; while no model has been promoted it is infinite; and a promoted model is
  an object other than the current model whose validation metric is the running minimum.
\<close>

definition train_inv ::
  "('b, 'o) train_ext \<Rightarrow> nat \<Rightarrow> pydict option \<Rightarrow> 'o train_state \<Rightarrow> bool" where
  "train_inv T a cfg0 ls =
     (model (inst ls) = Some a \<and> a < nxt (inst ls) \<and> config (inst ls) = cfg0
      \<and> min_val ls \<noteq> NaN
      \<and> (case best_local ls of
            None \<Rightarrow> min_val ls = PInf
          | Some b \<Rightarrow> b < nxt (inst ls) \<and> b \<noteq> a
              \<and> (case cfg0 of
                    None \<Rightarrow> False
                  | Some cfg \<Rightarrow>
                      (case cfg ''uncertainty'' of
                         None \<Rightarrow> False
                       | Some u \<Rightarrow> val_mse_de T u (heap (inst ls) b) = min_val ls))))"

section \<open>A small instance\<close>

text \<open>
  A gene universe of four genes with two control cells, a predictor with two parameter
  tensors, and collaborators simple enough to compute with.
\<close>

definition ex_M :: model_ext where
  "ex_M = \<lparr>get_similarity_network = (\<lambda>kind threshold k. (PEdges [(0, 1)], PWeights [1 / 2])),
          PertNet_Model = (\<lambda>cfg. [(''w'', [1, 2]), (''b'', [0])])\<rparr>"

definition ex_fresh :: pertnet where
  "ex_fresh = PertNet_init ''cpu'' [''A'', ''B'', ''C'', ''D''] [[1, 2, 3, 4], [3, 4, 5, 6]]"

definition ex_init :: pertnet where
  "ex_init = snd (model_initialize ex_M Map.empty ex_fresh)"

definition ex_fs :: filesystem where
  "ex_fs = \<lparr>dirs = {}, files = Map.empty\<rparr>"

text \<open>
  The dataset has one graph per control cell, tagged with the perturbation; the forward
  pass adds the number of perturbed genes to every entry, and the log-variance is the
  expression itself.
\<close>

definition ex_P :: "(real list \<times> string list) predict_ext" where
  "ex_P = \<lparr>create_cell_graph_dataset_for_prediction =
             (\<lambda>pert cells genes d. map (\<lambda>x. (x, pert)) cells),
          forward = (\<lambda>m batch. map (\<lambda>(x, pert). map (\<lambda>v. v + real (length pert)) x) batch),
          forward_logvar = (\<lambda>m batch. map fst batch)\<rparr>"

text \<open>The same instance initialized in uncertainty mode.\<close>

definition ex_unc :: pertnet where
  "ex_unc = snd (model_initialize ex_M [''uncertainty'' \<mapsto> PBool True] ex_fresh)"



text \<open>
  A trainer with one batch per epoch: backpropagation returns a large gradient for \<open>w\<close>
  and a small one for \<open>b\<close>; the optimizer state is the learning rate, the update is a
  plain gradient step, the scheduler halves the rate, and the validation metric is the
  square of the first entry of \<open>w\<close>.
\<close>

definition ex_T :: "(real, real) train_ext" where
  "ex_T = \<lparr>train_loader = [1],
           loss_backward = (\<lambda>unc reg dl m x. [''w'' \<mapsto> [10 * x, - 10 * x], ''b'' \<mapsto> [x / 4]]),
           Adam = (\<lambda>ps lr wd. lr),
           optimizer_step = (\<lambda>lr ps g.
              (lr, map (\<lambda>(k, t). (k, case g k of None \<Rightarrow> t
                                       | Some gt \<Rightarrow> map (\<lambda>(p, d). p - lr * d) (zip t gt))) ps)),
           scheduler_step = (\<lambda>lr. lr / 2),
           val_mse_de = (\<lambda>u m. case map_of (params m) ''w'' of
                                   Some (x # _) \<Rightarrow> Fin (x * x) | _ \<Rightarrow> NaN)\<rparr>"

text \<open>The local state of \<open>train\<close> on the initialized instance when the loop starts.\<close>

definition ex_ls0 :: "real train_state" where
  "ex_ls0 = train_start ex_T 1 (5 / 10000) 0 ex_init"

text \<open>
  The initialized instance saved to directory \<open>d\<close>, a fresh instance on the same dataset
  restored from it, and that restored instance saved to directory \<open>e\<close>.
\<close>

definition ex_fs_d :: filesystem where
  "ex_fs_d = snd (save_model ''d'' ex_init ex_fs)"

definition ex_restored :: pertnet where
  "ex_restored = snd (load_pretrained ex_M ''d'' ex_fs_d ex_fresh)"

definition ex_fs_e :: filesystem where
  "ex_fs_e = snd (save_model ''e'' ex_restored ex_fs_d)"

text \<open>The initialized instance after three epochs of training.\<close>

definition ex_trained :: pertnet where
  "ex_trained = snd (train ex_T 3 1 (5 / 10000) ex_init)"

text \<open>The trainer above with a validation metric that is always NaN.\<close>

definition ex_Tnan :: "(real, real) train_ext" where
  "ex_Tnan = ex_T\<lparr>val_mse_de := (\<lambda>u m. NaN)\<rparr>"

section \<open>Properties of \<open>save_model\<close>\<close>

lemma dirname_no_slash: "CHR ''/'' \<notin> set p \<Longrightarrow> dirname p = []"
  by (simp add: dirname_def)

text \<open>
  Claim C3, as amended. When \<open>save_model\<close> is called while the configuration is \<open>None\<close>,
  it writes no file: neither artifact exists afterwards that did not exist before. When
  the path exists, it raises the \<open>ValueError\<close> \<open>No model is initialized...\<close> and leaves the
  file system as it was. When the path does not exist, lines 138 and 139 run before the
  state check: the directory is created and stays, and the \<open>ValueError\<close> is raised
  then; or the directory cannot be created, and the error of \<open>os.mkdir\<close> is raised in
  place of the \<open>ValueError\<close>, the file system unchanged.
\<close>

theorem save_model_uninitialized:
  assumes "config self = None"
  shows "files (snd (save_model path self fs)) = files fs
         \<and> (os_path_exists fs path \<longrightarrow>
               save_model path self fs = (Inl (ValueError ''No model is initialized...''), fs))
         \<and> (\<not> os_path_exists fs path \<longrightarrow>
               (case os_mkdir path fs of
                  Inr fs1 \<Rightarrow>
                    save_model path self fs
                      = (Inl (ValueError ''No model is initialized...''),
                         fs\<lparr>dirs := insert path (dirs fs)\<rparr>)
                | Inl e \<Rightarrow> save_model path self fs = (Inl e, fs)))"
  using assms
  by (auto simp: save_model_def ensure_dir_def os_mkdir_def split: sum.splits if_splits)

theorem save_model_uninitialized_witness:
  "config ex_fresh = None
   \<and> save_model ''out'' ex_fresh (ex_fs\<lparr>dirs := {''out''}\<rparr>)
       = (Inl (ValueError ''No model is initialized...''), ex_fs\<lparr>dirs := {''out''}\<rparr>)
   \<and> save_model ''out'' ex_fresh ex_fs
       = (Inl (ValueError ''No model is initialized...''), ex_fs\<lparr>dirs := {''out''}\<rparr>)
   \<and> save_model ''missing/out'' ex_fresh ex_fs = (Inl FileNotFoundError, ex_fs)
   \<and> files (snd (save_model ''out'' ex_fresh ex_fs)) = Map.empty"
proof -
  have c: "config ex_fresh = None"
    by (simp add: ex_fresh_def PertNet_init_def)
  have e: "os_path_exists (ex_fs\<lparr>dirs := {''out''}\<rparr>) ''out''"
    by (simp add: os_path_exists_def is_dir_def)
  have n: "\<not> os_path_exists ex_fs ''out''" "\<not> os_path_exists ex_fs ''missing/out''"
    by (simp_all add: os_path_exists_def is_dir_def is_file_def ex_fs_def)
  have m: "os_mkdir ''out'' ex_fs = Inr (ex_fs\<lparr>dirs := {''out''}\<rparr>)"
    "os_mkdir ''missing/out'' ex_fs = Inl FileNotFoundError"
    by (simp_all add: os_mkdir_def dirname_def is_dir_def is_file_def ex_fs_def)
  show ?thesis
    using c e n m
      save_model_uninitialized [OF c, of "''out''" "ex_fs\<lparr>dirs := {''out''}\<rparr>"]
      save_model_uninitialized [OF c, of "''out''" ex_fs]
      save_model_uninitialized [OF c, of "''missing/out''" ex_fs]
    by (simp add: ex_fs_def)
qed

text \<open>
  On a path that does not exist the failed call is not without effect, and the error
  need not be the state error. With no directory \<open>out\<close>, the call leaves the new
  directory \<open>out\<close> behind; with no directory \<open>missing\<close>, the call on \<open>missing/out\<close>
  raises \<open>FileNotFoundError\<close>.
\<close>

theorem save_model_uninitialized_counterexample:
  "config ex_fresh = None
   \<and> fst (save_model ''out'' ex_fresh ex_fs) = Inl (ValueError ''No model is initialized...'')
   \<and> snd (save_model ''out'' ex_fresh ex_fs) \<noteq> ex_fs
   \<and> dirs (snd (save_model ''out'' ex_fresh ex_fs)) = {''out''}
   \<and> fst (save_model ''missing/out'' ex_fresh ex_fs) = Inl FileNotFoundError"
  by (simp add: save_model_def ensure_dir_def os_mkdir_def os_path_exists_def is_dir_def
        is_file_def dirname_def basename_def ex_fs_def ex_fresh_def PertNet_init_def)

section \<open>Properties of \<open>predict\<close>\<close>

lemma check_pert_eq:
  "check_pert gl pert = (if \<exists>g\<in>set pert. g \<notin> set gl then Inl (ValueError gene_error) else Inr ())"
  by (induction pert) auto

lemma check_pert_list_eq:
  "check_pert_list gl pl =
     (if \<exists>pert\<in>set pl. \<exists>g\<in>set pert. g \<notin> set gl then Inl (ValueError gene_error) else Inr ())"
  by (induction pl) (auto simp: check_pert_eq)

lemma dom_fold_upd:
  "dom (fold (\<lambda>x acc. acc(k x \<mapsto> f x)) xs m) = dom m \<union> k ` set xs"
  by (induction xs arbitrary: m) auto

lemma fold_upd_val:
  "fold (\<lambda>x acc. acc(k x \<mapsto> f x)) xs m l = Some v \<Longrightarrow>
     m l = Some v \<or> (\<exists>x\<in>set xs. k x = l \<and> v = f x)"
proof (induction xs arbitrary: m)
  case Nil
  then show ?case by simp
next
  case (Cons x xs)
  from Cons.IH[of "m(k x \<mapsto> f x)"] Cons.prems
  show ?case by (auto split: if_splits)
qed

lemma predict_loop_fold:
  assumes "ctrl_adata self = Some cells"
    and "\<forall>pert\<in>set pl. create_cell_graph_dataset_for_prediction P pert cells
                         (gene_list self) (device self) \<noteq> []"
  shows "predict_loop P self unc m pl (rp, rl) =
           Inr (fold (\<lambda>pert acc. acc(join_underscore pert \<mapsto>
                        mean_axis0 (forward P m (take 300
                          (create_cell_graph_dataset_for_prediction P pert cells
                             (gene_list self) (device self)))))) pl rp,
                if unc
                then fold (\<lambda>pert acc. acc(join_underscore pert \<mapsto>
                        mean_axis0 (forward_logvar P m (take 300
                          (create_cell_graph_dataset_for_prediction P pert cells
                             (gene_list self) (device self)))))) pl rl
                else rl)"
  using assms
proof (induction pl arbitrary: rp rl)
  case Nil
  then show ?case by simp
next
  case (Cons pert rest)
  then show ?case
    by (cases unc) (simp_all add: first_batch_def Let_def del: fun_upd_apply)
qed

lemma predict_loop_Inr_nonempty:
  assumes "predict_loop P self unc m pl acc = Inr res"
  shows "\<forall>pert\<in>set pl. \<exists>cells. ctrl_adata self = Some cells \<and>
            create_cell_graph_dataset_for_prediction P pert cells (gene_list self) (device self) \<noteq> []"
  using assms
proof (induction pl arbitrary: acc)
  case Nil
  then show ?case by simp
next
  case (Cons pert rest)
  obtain rp rl where acc: "acc = (rp, rl)" by (cases acc)
  from Cons.prems acc obtain cells where c: "ctrl_adata self = Some cells"
    by (auto split: option.splits)
  show ?case using Cons.prems Cons.IH acc c
    by (auto simp: first_batch_def Let_def split: if_splits)
qed

text \<open>The result of \<open>predict\<close> when validation and configuration succeed.\<close>

lemma predict_ok:
  assumes "check_pert_list (gene_list self) pl = Inr ()"
    and "config self = Some cfg" and "cfg ''uncertainty'' = Some u"
    and "py_truth u = Inr unc" and "best_model self = Some b"
    and "\<forall>pert\<in>set pl. pert_dataset P self pert \<noteq> []"
  shows "predict P pl self =
           (Inr (fold (\<lambda>pert acc. acc(join_underscore pert \<mapsto> pred_vector P self b pert)) pl Map.empty,
                 if unc
                 then Some (\<lambda>i. map_option (\<lambda>j. exp (- mean j))
                        (fold (\<lambda>pert acc. acc(join_underscore pert \<mapsto> logvar_vector P self b pert))
                           pl Map.empty i))
                 else None),
            to_device b (device self) (self\<lparr>ctrl_adata := Some (ctrl self)\<rparr>))"
proof -
  let ?s1 = "self\<lparr>ctrl_adata := Some (ctrl self)\<rparr>"
  let ?s2 = "to_device b (device self) ?s1"
  have c: "ctrl_adata ?s2 = Some (ctrl self)" "gene_list ?s2 = gene_list self"
    "device ?s2 = device self" "heap ?s2 b = best_module self b"
    by (simp_all add: to_device_def best_module_def)
  have ne: "\<forall>pert\<in>set pl. create_cell_graph_dataset_for_prediction P pert (ctrl self)
                         (gene_list ?s2) (device ?s2) \<noteq> []"
    using assms(6) by (simp add: pert_dataset_def c)
  note loop = predict_loop_fold [OF c(1) ne]
  show ?thesis
    using assms(1-5)
    by (cases unc)
       (simp_all add: predict_def Let_def getitem_def c loop pred_vector_def logvar_vector_def
          pert_batch_def pert_dataset_def)
qed


lemma model_initialize_ok:
  assumes "dom kwargs \<subseteq> set hyper_names"
  shows "model_initialize M kwargs self =
     (Inr (),
      self\<lparr>config := Some (fill_go M kwargs (fill_coexpress M kwargs (config_literal kwargs self))),
           heap := (heap self)
              (nxt self := \<lparr>params = PertNet_Model M (fill_go M kwargs
                                (fill_coexpress M kwargs (config_literal kwargs self))),
                            grad = Map.empty, dev = device self\<rparr>,
               Suc (nxt self) := \<lparr>params = PertNet_Model M (fill_go M kwargs
                                (fill_coexpress M kwargs (config_literal kwargs self))),
                            grad = Map.empty, dev = device self\<rparr>),
           nxt := Suc (Suc (nxt self)),
           model := Some (nxt self),
           best_model := Some (Suc (nxt self))\<rparr>)"
  using assms by (simp add: model_initialize_def built_config_def Let_def deepcopy_def)

lemma ex_init_eq:
  "gene_list ex_init = [''A'', ''B'', ''C'', ''D'']"
  "device ex_init = ''cpu''"
  "ctrl ex_init = [[1, 2, 3, 4], [3, 4, 5, 6]]"
  "model ex_init = Some 0"
  "best_model ex_init = Some 1"
  "heap ex_init 0 = \<lparr>params = [(''w'', [1, 2]), (''b'', [0])], grad = Map.empty, dev = ''cpu''\<rparr>"
  "heap ex_init 1 = \<lparr>params = [(''w'', [1, 2]), (''b'', [0])], grad = Map.empty, dev = ''cpu''\<rparr>"
  by (simp_all add: ex_init_def ex_fresh_def PertNet_init_def model_initialize_ok ex_M_def)

lemma ex_init_config:
  "config ex_init = Some (fill_go ex_M Map.empty (fill_coexpress ex_M Map.empty
                      (config_literal Map.empty ex_fresh)))"
  by (simp add: ex_init_def model_initialize_ok)

lemma ex_init_uncertainty:
  "fill_go ex_M Map.empty (fill_coexpress ex_M Map.empty (config_literal Map.empty ex_fresh))
     ''uncertainty'' = Some (PBool False)"
  by (simp add: fill_go_def fill_coexpress_def config_literal_def ex_M_def hyper_names_def
        arg_def default_arg_def)

text \<open>
  Claim C2, as amended. When some perturbation of the list holds a gene that is not in
  the gene universe, \<open>predict\<close> raises the \<open>ValueError\<close> with the fixed message
  \<open>gene_error\<close> and returns no result mapping; the instance is left as line 153 set it,
  with both models untouched. The message is the same for every gene.
\<close>

theorem predict_unknown_gene:
  assumes "pert \<in> set pert_list" and "g \<in> set pert" and "g \<notin> set (gene_list self)"
  shows "predict P pert_list self =
           (Inl (ValueError gene_error), self\<lparr>ctrl_adata := Some (ctrl self)\<rparr>)"
proof -
  have "check_pert_list (gene_list self) pert_list = Inl (ValueError gene_error)"
    using assms by (auto simp: check_pert_list_eq)
  then show ?thesis
    by (simp add: predict_def Let_def)
qed

theorem predict_unknown_gene_witness:
  "[''BRCA1''] \<in> set [[''A''], [''BRCA1'']] \<and> ''BRCA1'' \<in> set [''BRCA1'']
   \<and> ''BRCA1'' \<notin> set (gene_list ex_init)
   \<and> fst (predict ex_P [[''A''], [''BRCA1'']] ex_init) = Inl (ValueError gene_error)"
proof -
  have h: "''BRCA1'' \<notin> set (gene_list ex_init)"
    by (simp add: ex_init_eq)
  show ?thesis
    using h predict_unknown_gene [of "[''BRCA1'']" "[[''A''], [''BRCA1'']]" "''BRCA1''" ex_init ex_P]
    by simp
qed

text \<open>
  The error does not name the gene: for the unknown gene \<open>BRCA1\<close> the message does not
  contain the identifier, and the unknown gene \<open>TP53\<close> gives the very same error.
\<close>

theorem predict_error_names_gene_counterexample:
  "fst (predict ex_P [[''A''], [''BRCA1'']] ex_init) = Inl (ValueError gene_error)
   \<and> \<not> sublist ''BRCA1'' gene_error
   \<and> fst (predict ex_P [[''TP53'']] ex_init) = fst (predict ex_P [[''A''], [''BRCA1'']] ex_init)"
  by (simp add: predict_def Let_def ex_init_eq gene_error_def sublist_code prefix_code)

lemma length_mean_axis0:
  "rows \<noteq> [] \<Longrightarrow> length (hd rows) = n \<Longrightarrow> length (mean_axis0 rows) = n"
  by (cases rows) (simp_all add: mean_axis0_def)

lemma sum_columns:
  "\<forall>row\<in>set (rows :: real list list). length row = n \<Longrightarrow>
     sum_list (map (\<lambda>j. sum_list (map (\<lambda>row. row ! j) rows)) [0..<n]) = sum_list (concat rows)"
proof (induction rows)
  case Nil
  then show ?case by simp
next
  case (Cons r rows)
  have "map (\<lambda>j. r ! j) [0..<n] = r"
    using Cons.prems map_nth[of r] by auto
  then have r: "sum_list (map (\<lambda>j. r ! j) [0..<n]) = sum_list r" by simp
  have "sum_list (map (\<lambda>j. sum_list (map (\<lambda>row. row ! j) (r # rows))) [0..<n])
          = sum_list (map (\<lambda>j. r ! j + sum_list (map (\<lambda>row. row ! j) rows)) [0..<n])"
    by simp
  also have "\<dots> = sum_list (map (\<lambda>j. r ! j) [0..<n])
                  + sum_list (map (\<lambda>j. sum_list (map (\<lambda>row. row ! j) rows)) [0..<n])"
    by (rule sum_list_addf)
  also have "\<dots> = sum_list r + sum_list (concat rows)"
    using r Cons by simp
  finally show ?case by simp
qed

lemma sum_list_divide:
  "sum_list (map (\<lambda>x. f x / c) xs) = sum_list (map f xs) / (c::real)"
  by (induction xs) (simp_all add: add_divide_distrib)

lemma length_concat_rect:
  "\<forall>row\<in>set rows. length row = n \<Longrightarrow> length (concat rows) = length rows * n"
  by (induction rows) simp_all

lemma mean_mean_axis0:
  assumes "rows \<noteq> []" and "\<forall>row\<in>set rows. length row = n"
  shows "mean (mean_axis0 rows) = mean (concat rows)"
proof -
  obtain r rest where rows: "rows = r # rest" using assms(1) by (cases rows) auto
  have n: "length r = n" using assms(2) rows by simp
  have "mean_axis0 rows = map (\<lambda>j. sum_list (map (\<lambda>row. row ! j) rows) / real (length rows)) [0..<n]"
    using rows n by (simp add: mean_axis0_def mean_def)
  then have "sum_list (mean_axis0 rows) =
               sum_list (map (\<lambda>j. sum_list (map (\<lambda>row. row ! j) rows)) [0..<n]) / real (length rows)"
    by (simp add: sum_list_divide)
  then have s: "sum_list (mean_axis0 rows) = sum_list (concat rows) / real (length rows)"
    using sum_columns[OF assms(2)] by simp
  have l: "length (mean_axis0 rows) = n" using rows n by (simp add: mean_axis0_def)
  show ?thesis
    using s l length_concat_rect[OF assms(2)] by (simp add: mean_def)
qed


lemma ex_pred_vector:
  "pred_vector ex_P ex_init (Suc 0) [''A''] = [3, 4, 5, 6]"
  "pred_vector ex_P ex_init (Suc 0) [''A'', ''B''] = [4, 5, 6, 7]"
  by (simp_all add: pred_vector_def pert_batch_def pert_dataset_def best_module_def ex_P_def
        ex_init_eq mean_axis0_def mean_def upt_rec)

lemma ex_predict_value:
  "predict ex_P [[''A''], [''A'', ''B'']] ex_init =
     (Inr ([''A'' \<mapsto> [3, 4, 5, 6], ''A_B'' \<mapsto> [4, 5, 6, 7]], None),
      to_device 1 ''cpu'' (ex_init\<lparr>ctrl_adata := Some (ctrl ex_init)\<rparr>))"
proof -
  have "predict ex_P [[''A''], [''A'', ''B'']] ex_init =
     (Inr (fold (\<lambda>pert acc. acc(join_underscore pert \<mapsto> pred_vector ex_P ex_init 1 pert))
             [[''A''], [''A'', ''B'']] Map.empty,
           if False then Some (\<lambda>i. map_option (\<lambda>j. exp (- mean j))
                  (fold (\<lambda>pert acc. acc(join_underscore pert \<mapsto> logvar_vector ex_P ex_init 1 pert))
                     [[''A''], [''A'', ''B'']] Map.empty i)) else None),
      to_device 1 (device ex_init) (ex_init\<lparr>ctrl_adata := Some (ctrl ex_init)\<rparr>))"
    by (rule predict_ok [OF _ ex_init_config ex_init_uncertainty])
       (simp_all add: ex_init_eq pert_dataset_def ex_P_def)
  then show ?thesis
    by (simp add: ex_pred_vector ex_init_eq(2))
qed

lemma predict_Inr_D:
  assumes "fst (predict P pl self) = Inr res"
  shows "check_pert_list (gene_list self) pl = Inr () \<and> (\<forall>pert\<in>set pl. pert_dataset P self pert \<noteq> [])"
proof -
  have c: "check_pert_list (gene_list self) pl = Inr ()"
    using assms by (auto simp: predict_def Let_def split: sum.splits)
  have "\<forall>pert\<in>set pl. pert_dataset P self pert \<noteq> []"
    using assms
    by (auto simp: predict_def Let_def to_device_def pert_dataset_def
          split: sum.splits option.splits prod.splits if_splits
          dest!: predict_loop_Inr_nonempty)
  with c show ?thesis by simp
qed

lemma mean_axis0_grand_mean:
  assumes "\<forall>row\<in>set rows. length row = n"
  shows "mean (mean_axis0 rows) = mean (concat rows)"
proof (cases rows)
  case Nil
  then show ?thesis by (simp add: mean_axis0_def)
next
  case (Cons r rest)
  then show ?thesis using mean_mean_axis0 [of rows n] assms by simp
qed

text \<open>
  Claim C4, as amended. On an initialized instance whose prediction datasets are not
  empty and whose predictor returns rows as long as the gene universe, \<open>predict\<close> on a
  list of valid perturbations returns a result mapping whose keys are exactly the
  underscore-joined labels of the perturbations, each mapped to a vector as long as the
  gene universe; the mapping has as many keys as the list has perturbations when the
  labels are pairwise distinct.
\<close>

theorem predict_keys_and_lengths:
  assumes "\<forall>pert\<in>set pl. \<forall>g\<in>set pert. g \<in> set (gene_list self)"
    and "config self = Some cfg" and "cfg ''uncertainty'' = Some u"
    and "py_truth u = Inr unc" and "best_model self = Some b"
    and "\<forall>pert\<in>set pl. pert_dataset P self pert \<noteq> []"
    and "\<forall>pert\<in>set pl. forward P (best_module self b) (pert_batch P self pert) \<noteq> [] \<and>
           (\<forall>row\<in>set (forward P (best_module self b) (pert_batch P self pert)).
              length row = length (gene_list self))"
  shows "\<exists>rp ru. fst (predict P pl self) = Inr (rp, ru)
           \<and> dom rp = join_underscore ` set pl
           \<and> (\<forall>l v. rp l = Some v \<longrightarrow> length v = length (gene_list self))
           \<and> (distinct (map join_underscore pl) \<longrightarrow> card (dom rp) = length pl)"
proof -
  let ?rp = "fold (\<lambda>pert acc. acc(join_underscore pert \<mapsto> pred_vector P self b pert)) pl Map.empty"
  have chk: "check_pert_list (gene_list self) pl = Inr ()"
    using assms(1) by (auto simp: check_pert_list_eq)
  have res: "\<exists>ru. fst (predict P pl self) = Inr (?rp, ru)"
    by (simp add: predict_ok [OF chk assms(2-6)])
  have d: "dom ?rp = join_underscore ` set pl"
    by (simp add: dom_fold_upd)
  have len: "length (pred_vector P self b pert) = length (gene_list self)" if "pert \<in> set pl" for pert
  proof -
    from assms(7) that have "forward P (best_module self b) (pert_batch P self pert) \<noteq> []"
      and "\<forall>row\<in>set (forward P (best_module self b) (pert_batch P self pert)).
             length row = length (gene_list self)"
      by blast+
    then show ?thesis
      unfolding pred_vector_def
      by (intro length_mean_axis0) (auto simp: hd_in_set)
  qed
  have v: "\<forall>l v. ?rp l = Some v \<longrightarrow> length v = length (gene_list self)"
    using len by (auto dest!: fold_upd_val)
  have c: "distinct (map join_underscore pl) \<longrightarrow> card (dom ?rp) = length pl"
    using d distinct_card [of "map join_underscore pl"] by auto
  from res d v c show ?thesis by blast
qed


text \<open>
  A list of length two that names the perturbation \<open>A\<close> twice gives a result mapping with
  one key: the dictionary is keyed by the label, and the second entry overwrites the
  first.
\<close>

theorem predict_duplicate_labels_counterexample:
  "fst (predict ex_P [[''A''], [''A'']] ex_init) = Inr ([''A'' \<mapsto> [3, 4, 5, 6]], None)
   \<and> card (dom [''A'' \<mapsto> [3, 4, 5, 6::real]]) \<noteq> length [[''A''], [''A'']]"
proof -
  have "predict ex_P [[''A''], [''A'']] ex_init =
     (Inr (fold (\<lambda>pert acc. acc(join_underscore pert \<mapsto> pred_vector ex_P ex_init 1 pert))
             [[''A''], [''A'']] Map.empty,
           if False then Some (\<lambda>i. map_option (\<lambda>j. exp (- mean j))
                  (fold (\<lambda>pert acc. acc(join_underscore pert \<mapsto> logvar_vector ex_P ex_init 1 pert))
                     [[''A''], [''A'']] Map.empty i)) else None),
      to_device 1 (device ex_init) (ex_init\<lparr>ctrl_adata := Some (ctrl ex_init)\<rparr>))"
    by (rule predict_ok [OF _ ex_init_config ex_init_uncertainty])
       (simp_all add: ex_init_eq pert_dataset_def ex_P_def)
  then show ?thesis
    by (simp add: ex_pred_vector)
qed

text \<open>
  Claim C9. In uncertainty mode a successful \<open>predict\<close> returns, beside the predictions,
  a mapping with the same keys, the underscore-joined labels; each score is
  \<open>exp (- mean logvar)\<close>, where the mean runs over all entries of the log-variance
  output of the best model on the batch of a perturbation with that label. The code
  takes the mean over the cells first and then over the genes, which is the mean over
  all entries of a rectangular output.
\<close>

theorem predict_logvar_score:
  assumes "config self = Some cfg" and "cfg ''uncertainty'' = Some u"
    and "py_truth u = Inr True" and "best_model self = Some b"
    and "fst (predict P pl self) = Inr (rp, ru)"
    and "\<forall>pert\<in>set pl. \<forall>row\<in>set (forward_logvar P (best_module self b)
                                         (pert_batch P self pert)). length row = n"
  shows "\<exists>sc. ru = Some sc \<and> dom sc = dom rp \<and> dom sc = join_underscore ` set pl
           \<and> (\<forall>l s. sc l = Some s \<longrightarrow>
                 (\<exists>pert\<in>set pl. join_underscore pert = l \<and>
                    s = exp (- mean (concat (forward_logvar P (best_module self b)
                                               (pert_batch P self pert))))))"
proof -
  let ?rl = "fold (\<lambda>pert acc. acc(join_underscore pert \<mapsto> logvar_vector P self b pert)) pl Map.empty"
  let ?rp = "fold (\<lambda>pert acc. acc(join_underscore pert \<mapsto> pred_vector P self b pert)) pl Map.empty"
  let ?sc = "\<lambda>i. map_option (\<lambda>j. exp (- mean j)) (?rl i)"
  from predict_Inr_D [OF assms(5)]
  have chk: "check_pert_list (gene_list self) pl = Inr ()"
    and ne: "\<forall>pert\<in>set pl. pert_dataset P self pert \<noteq> []"
    by simp_all
  have "fst (predict P pl self) = Inr (?rp, Some ?sc)"
    by (simp add: predict_ok [OF chk assms(1-4) ne])
  with assms(5) have rp: "rp = ?rp" and ru: "ru = Some ?sc" by simp_all
  have "dom ?sc = dom ?rl"
    by (auto simp: dom_def)
  then have d1: "dom ?sc = join_underscore ` set pl"
    by (simp add: dom_fold_upd)
  have d2: "dom ?sc = dom rp"
    using d1 rp by (simp add: dom_fold_upd)
  have m: "mean (logvar_vector P self b pert) =
             mean (concat (forward_logvar P (best_module self b) (pert_batch P self pert)))"
    if "pert \<in> set pl" for pert
  proof -
    from assms(6) that
    have "\<forall>row\<in>set (forward_logvar P (best_module self b) (pert_batch P self pert)).
             length row = n"
      by blast
    then show ?thesis
      unfolding logvar_vector_def by (rule mean_axis0_grand_mean)
  qed
  have v: "\<forall>l s. ?sc l = Some s \<longrightarrow>
                 (\<exists>pert\<in>set pl. join_underscore pert = l \<and>
                    s = exp (- mean (concat (forward_logvar P (best_module self b)
                                               (pert_batch P self pert)))))"
  proof (intro allI impI)
    fix l s
    assume "?sc l = Some s"
    then obtain j where j: "?rl l = Some j" and s: "s = exp (- mean j)"
      by (auto simp: map_option_case split: option.splits)
    from fold_upd_val [OF j] obtain pert where "pert \<in> set pl" "join_underscore pert = l"
      "j = logvar_vector P self b pert"
      by auto
    with s m show "\<exists>pert\<in>set pl. join_underscore pert = l \<and>
                    s = exp (- mean (concat (forward_logvar P (best_module self b)
                                               (pert_batch P self pert))))"
      by auto
  qed
  from ru d1 d2 v show ?thesis by blast
qed




lemma ex_unc_eq:
  "gene_list ex_unc = [''A'', ''B'', ''C'', ''D'']"
  "device ex_unc = ''cpu''"
  "ctrl ex_unc = [[1, 2, 3, 4], [3, 4, 5, 6]]"
  "best_model ex_unc = Some 1"
  "config ex_unc = Some (fill_go ex_M [''uncertainty'' \<mapsto> PBool True]
                     (fill_coexpress ex_M [''uncertainty'' \<mapsto> PBool True]
                        (config_literal [''uncertainty'' \<mapsto> PBool True] ex_fresh)))"
  by (simp_all add: ex_unc_def ex_fresh_def PertNet_init_def model_initialize_ok ex_M_def
        hyper_names_def)

lemma ex_unc_uncertainty:
  "fill_go ex_M [''uncertainty'' \<mapsto> PBool True]
     (fill_coexpress ex_M [''uncertainty'' \<mapsto> PBool True]
        (config_literal [''uncertainty'' \<mapsto> PBool True] ex_fresh))
     ''uncertainty'' = Some (PBool True)"
  by (simp add: fill_go_def fill_coexpress_def config_literal_def ex_M_def hyper_names_def
        arg_def default_arg_def)

text \<open>
  The scenario of the specification: gene universe \<open>A, B, C, D\<close>, perturbations \<open>[A]\<close> and
  \<open>[A, B]\<close>, keys \<open>A\<close> and \<open>A_B\<close>, vectors of length four.
\<close>

theorem predict_keys_and_lengths_witness:
  "\<exists>rp ru. fst (predict ex_P [[''A''], [''A'', ''B'']] ex_init) = Inr (rp, ru)
     \<and> dom rp = {''A'', ''A_B''} \<and> card (dom rp) = 2
     \<and> (\<exists>v. rp ''A'' = Some v \<and> length v = 4)
     \<and> (\<exists>v. rp ''A_B'' = Some v \<and> length v = 4)"
proof -
  have valid: "\<forall>pert\<in>set [[''A''], [''A'', ''B'']]. \<forall>g\<in>set pert. g \<in> set (gene_list ex_init)"
    by (simp add: ex_init_eq)
  have truth: "py_truth (PBool False) = Inr False" by simp
  have ne: "\<forall>pert\<in>set [[''A''], [''A'', ''B'']]. pert_dataset ex_P ex_init pert \<noteq> []"
    by (simp add: pert_dataset_def ex_P_def ex_init_eq)
  have shape: "\<forall>pert\<in>set [[''A''], [''A'', ''B'']].
      forward ex_P (best_module ex_init 1) (pert_batch ex_P ex_init pert) \<noteq> [] \<and>
      (\<forall>row\<in>set (forward ex_P (best_module ex_init 1) (pert_batch ex_P ex_init pert)).
          length row = length (gene_list ex_init))"
    by (simp add: pert_batch_def pert_dataset_def ex_P_def ex_init_eq)
  from predict_keys_and_lengths [OF valid ex_init_config ex_init_uncertainty truth
        ex_init_eq(5) ne shape]
  obtain rp ru where r: "fst (predict ex_P [[''A''], [''A'', ''B'']] ex_init) = Inr (rp, ru)"
    and d: "dom rp = join_underscore ` set [[''A''], [''A'', ''B'']]"
    and v: "\<forall>l v. rp l = Some v \<longrightarrow> length v = length (gene_list ex_init)"
    and c: "distinct (map join_underscore [[''A''], [''A'', ''B'']]) \<longrightarrow>
              card (dom rp) = length [[''A''], [''A'', ''B'']]"
    by blast
  have d': "dom rp = {''A'', ''A_B''}" using d by simp
  have v': "\<forall>l v. rp l = Some v \<longrightarrow> length v = 4" using v by (simp add: ex_init_eq)
  have c': "card (dom rp) = 2" using c by simp
  from d' obtain va where a: "rp ''A'' = Some va" by blast
  from d' obtain vb where b: "rp ''A_B'' = Some vb" by blast
  from a b v' have "length va = 4" "length vb = 4" by blast+
  with r d' c' a b show ?thesis by blast
qed

lemma ex_logvar_mean:
  "mean (concat (forward_logvar ex_P (best_module ex_unc 1) (pert_batch ex_P ex_unc [''A'']))) = 7 / 2"
  by (simp add: pert_batch_def pert_dataset_def ex_P_def ex_unc_eq mean_def)

theorem predict_logvar_score_witness:
  "\<exists>rp sc. fst (predict ex_P [[''A'']] ex_unc) = Inr (rp, Some sc)
     \<and> dom sc = {''A''} \<and> sc ''A'' = Some (exp (- (7 / 2)))"
proof -
  have truth: "py_truth (PBool True) = Inr True" by simp
  have chk: "check_pert_list (gene_list ex_unc) [[''A'']] = Inr ()"
    by (simp add: ex_unc_eq)
  have ne: "\<forall>pert\<in>set [[''A'']]. pert_dataset ex_P ex_unc pert \<noteq> []"
    by (simp add: pert_dataset_def ex_P_def ex_unc_eq)
  obtain rp ru where res: "fst (predict ex_P [[''A'']] ex_unc) = Inr (rp, ru)"
    using predict_ok [OF chk ex_unc_eq(5) ex_unc_uncertainty truth ex_unc_eq(4) ne]
    by simp
  have shape: "\<forall>pert\<in>set [[''A'']]. \<forall>row\<in>set (forward_logvar ex_P (best_module ex_unc 1)
                  (pert_batch ex_P ex_unc pert)). length row = 4"
    by (simp add: pert_batch_def pert_dataset_def ex_P_def ex_unc_eq)
  from predict_logvar_score [OF ex_unc_eq(5) ex_unc_uncertainty truth ex_unc_eq(4) res shape]
  obtain sc where ru: "ru = Some sc" and d: "dom sc = join_underscore ` set [[''A'']]"
    and v: "\<forall>l s. sc l = Some s \<longrightarrow>
              (\<exists>pert\<in>set [[''A'']]. join_underscore pert = l \<and>
                 s = exp (- mean (concat (forward_logvar ex_P (best_module ex_unc 1)
                                            (pert_batch ex_P ex_unc pert)))))"
    by blast
  from d have "''A'' \<in> dom sc" by simp
  then obtain s where s: "sc ''A'' = Some s" by blast
  with v have "\<exists>pert\<in>set [[''A'']]. join_underscore pert = ''A'' \<and>
                 s = exp (- mean (concat (forward_logvar ex_P (best_module ex_unc 1)
                                            (pert_batch ex_P ex_unc pert))))"
    by blast
  then have "s = exp (- mean (concat (forward_logvar ex_P (best_module ex_unc 1)
                                            (pert_batch ex_P ex_unc [''A'']))))"
    by simp
  then have "s = exp (- (7 / 2))"
    by (simp only: ex_logvar_mean)
  with s have "sc ''A'' = Some (exp (- (7 / 2)))" by simp
  moreover have "dom sc = {''A''}" using d by simp
  ultimately show ?thesis using res ru by blast
qed



section \<open>Properties of \<open>train\<close>\<close>

lemma clamp_abs: "\<bar>clamp (- 1) 1 x\<bar> \<le> 1"
  by (auto simp: clamp_def min_def max_def abs_if)

lemma clip_grad_value_bound:
  "clip_grad_value 1 g k = Some t \<Longrightarrow> x \<in> set t \<Longrightarrow> \<bar>x\<bar> \<le> 1"
  by (auto simp: clip_grad_value_def clamp_abs)

lemma compute_grad_params:
  "compute_grad T cfg m batch = Inr m1 \<Longrightarrow> params m1 = params m \<and> dev m1 = dev m"
  by (auto simp: compute_grad_def split: sum.splits if_splits)

text \<open>
  Claim C6. In every training step that completes, the gradient that the model holds
  after backpropagation is clipped, \<open>clip_grad_value 1\<close> of what backpropagation
  computed, before the optimizer step: no component of any parameter's gradient exceeds
  \<open>1\<close> in absolute value, and the optimizer computes the new parameters from the old
  ones and this clipped gradient.
\<close>

theorem train_step_clips_gradient:
  assumes "train_step T ls batch = (None, ls')" and "model (inst ls) = Some a"
  shows "\<exists>cfg m1. config (inst ls) = Some cfg
           \<and> compute_grad T cfg ((heap (inst ls) a)\<lparr>grad := Map.empty\<rparr>) batch = Inr m1
           \<and> grad (heap (inst ls') a) = clip_grad_value 1 (grad m1)
           \<and> (\<forall>k t. grad (heap (inst ls') a) k = Some t \<longrightarrow> (\<forall>x\<in>set t. \<bar>x\<bar> \<le> 1))
           \<and> (optimizer ls', params (heap (inst ls') a))
               = optimizer_step T (optimizer ls) (params (heap (inst ls) a))
                   (grad (heap (inst ls') a))"
proof -
  from assms obtain cfg where cfg: "config (inst ls) = Some cfg"
    by (auto simp: train_step_def Let_def split: option.splits)
  from assms cfg obtain m1 where
    m1: "compute_grad T cfg ((heap (inst ls) a)\<lparr>grad := Map.empty\<rparr>) batch = Inr m1"
    by (auto simp: train_step_def Let_def split: sum.splits)
  let ?g = "clip_grad_value 1 (grad m1)"
  have g: "grad (heap (inst ls') a) = ?g"
    and o: "(optimizer ls', params (heap (inst ls') a))
               = optimizer_step T (optimizer ls) (params m1) ?g"
    using assms cfg m1
    by (auto simp: train_step_def Let_def split: prod.splits)
  have b: "\<forall>k t. ?g k = Some t \<longrightarrow> (\<forall>x\<in>set t. \<bar>x\<bar> \<le> 1)"
    using clip_grad_value_bound by blast
  have p: "params m1 = params (heap (inst ls) a)"
    using compute_grad_params [OF m1] by simp
  from cfg m1 g o b p show ?thesis by simp
qed


lemma ex_ls0_eq:
  "model (inst ex_ls0) = Some 0"
  "config (inst ex_ls0) = config ex_init"
  "optimizer ex_ls0 = 1"
  "heap (inst ex_ls0) 0 = \<lparr>params = [(''w'', [1, 2]), (''b'', [0])], grad = Map.empty, dev = ''cpu''\<rparr>"
  by (simp_all add: ex_ls0_def train_start_def to_device_def ex_T_def ex_init_eq)

lemma ex_init_keys:
  "fill_go ex_M Map.empty (fill_coexpress ex_M Map.empty (config_literal Map.empty ex_fresh))
     ''direction_lambda'' = Some (PFloat (1 / 10))"
  by (simp add: fill_go_def fill_coexpress_def config_literal_def ex_M_def hyper_names_def
        arg_def default_arg_def)

lemma ex_compute_grad:
  "compute_grad ex_T
     (fill_go ex_M Map.empty (fill_coexpress ex_M Map.empty (config_literal Map.empty ex_fresh)))
     m 1 = Inr (m\<lparr>grad := [''w'' \<mapsto> [10, - 10], ''b'' \<mapsto> [1 / 4]]\<rparr>)"
  by (simp add: compute_grad_def getitem_def ex_init_uncertainty ex_init_keys ex_T_def)

lemma ex_train_step_ok: "fst (train_step ex_T ex_ls0 1) = None"
  by (simp add: train_step_def Let_def ex_ls0_eq ex_init_config ex_compute_grad split_def)

theorem train_step_clips_gradient_witness:
  "fst (train_step ex_T ex_ls0 1) = None
   \<and> grad (heap (inst (snd (train_step ex_T ex_ls0 1))) 0) ''w'' = Some [1, - 1]
   \<and> grad (heap (inst (snd (train_step ex_T ex_ls0 1))) 0) ''b'' = Some [1 / 4]
   \<and> params (heap (inst (snd (train_step ex_T ex_ls0 1))) 0) = [(''w'', [0, 3]), (''b'', [- (1 / 4)])]"
proof -
  let ?ls' = "snd (train_step ex_T ex_ls0 1)"
  have step: "train_step ex_T ex_ls0 1 = (None, ?ls')"
    using ex_train_step_ok by (simp add: prod_eq_iff)
  from train_step_clips_gradient [OF step ex_ls0_eq(1)]
  obtain cfg m1 where c: "config (inst ex_ls0) = Some cfg"
    and m: "compute_grad ex_T cfg ((heap (inst ex_ls0) 0)\<lparr>grad := Map.empty\<rparr>) 1 = Inr m1"
    and g: "grad (heap (inst ?ls') 0) = clip_grad_value 1 (grad m1)"
    and o: "(optimizer ?ls', params (heap (inst ?ls') 0))
              = optimizer_step ex_T (optimizer ex_ls0) (params (heap (inst ex_ls0) 0))
                  (grad (heap (inst ?ls') 0))"
    by blast
  from c have cfg: "cfg = fill_go ex_M Map.empty (fill_coexpress ex_M Map.empty
                      (config_literal Map.empty ex_fresh))"
    by (simp add: ex_ls0_eq ex_init_config)
  from m have m1: "grad m1 = [''w'' \<mapsto> [10, - 10], ''b'' \<mapsto> [1 / 4]]"
    unfolding cfg ex_compute_grad by auto
  have gw: "grad (heap (inst ?ls') 0) ''w'' = Some [1, - 1]"
    and gb: "grad (heap (inst ?ls') 0) ''b'' = Some [1 / 4]"
    unfolding g m1 by (simp_all add: clip_grad_value_def clamp_def)
  have "params (heap (inst ?ls') 0) = [(''w'', [0, 3]), (''b'', [- (1 / 4)])]"
    using o gw gb by (simp add: ex_T_def ex_ls0_eq)
  with ex_train_step_ok gw gb show ?thesis by simp
qed

lemma fl_less_irrefl: "\<not> fl_less a a"
  by (cases a) simp_all

lemma fl_less_trans: "fl_less a b \<Longrightarrow> fl_less b c \<Longrightarrow> fl_less a c"
  by (cases a; cases b; cases c) simp_all

lemma fl_less_le_trans: "fl_less a b \<Longrightarrow> fl_le b c \<Longrightarrow> fl_less a c"
  by (auto simp: fl_le_def intro: fl_less_trans)

lemma fl_le_trans: "fl_le a b \<Longrightarrow> fl_le b c \<Longrightarrow> fl_le a c"
  by (auto simp: fl_le_def intro: fl_less_trans)

lemma fl_le_refl: "a \<noteq> NaN \<Longrightarrow> fl_le a a"
  by (simp add: fl_le_def)

lemma fl_less_not_NaN: "fl_less a b \<Longrightarrow> a \<noteq> NaN \<and> b \<noteq> NaN"
  by (cases a; cases b) simp_all

lemma train_step_frame:
  assumes "train_step T ls batch = (None, ls')"
  shows "model (inst ls') = model (inst ls) \<and> nxt (inst ls') = nxt (inst ls)
         \<and> config (inst ls') = config (inst ls) \<and> min_val ls' = min_val ls
         \<and> best_local ls' = best_local ls
         \<and> (\<forall>c. model (inst ls) \<noteq> Some c \<longrightarrow> heap (inst ls') c = heap (inst ls) c)"
  using assms
  by (auto simp: train_step_def Let_def split: option.splits sum.splits prod.splits)

lemma train_batches_frame:
  assumes "train_batches T ls batches = (None, ls')"
  shows "model (inst ls') = model (inst ls) \<and> nxt (inst ls') = nxt (inst ls)
         \<and> config (inst ls') = config (inst ls) \<and> min_val ls' = min_val ls
         \<and> best_local ls' = best_local ls
         \<and> (\<forall>c. model (inst ls) \<noteq> Some c \<longrightarrow> heap (inst ls') c = heap (inst ls) c)"
  using assms
proof (induction batches arbitrary: ls)
  case Nil
  then show ?case by simp
next
  case (Cons batch rest)
  from Cons.prems obtain ls1 where s: "train_step T ls batch = (None, ls1)"
    and r: "train_batches T ls1 rest = (None, ls')"
    by (auto split: prod.splits option.splits)
  from train_step_frame [OF s] Cons.IH [OF r] show ?case by simp
qed

lemma train_batches_inv:
  assumes "train_batches T ls batches = (None, ls')" and "train_inv T a cfg0 ls"
  shows "train_inv T a cfg0 ls'"
  using train_batches_frame [OF assms(1)] assms(2)
  by (auto simp: train_inv_def split: option.splits)


lemma epoch_inv:
  assumes "epoch T ls = (None, ls')" and "train_inv T a cfg0 ls"
  shows "\<exists>v. validation T ls' = Inr (v, a) \<and> train_inv T a cfg0 ls'
           \<and> (best_local ls' \<noteq> best_local ls) = fl_less v (min_val ls)
           \<and> min_val ls' = (if fl_less v (min_val ls) then v else min_val ls)"
proof -
  from assms(1) obtain ls1 where b: "train_batches T ls (train_loader T) = (None, ls1)"
    by (auto simp: epoch_def Let_def split: prod.splits option.splits)
  let ?ls2 = "ls1\<lparr>optimizer := scheduler_step T (optimizer ls1)\<rparr>"
  from assms(1) b obtain v a' where val: "validation T ?ls2 = Inr (v, a')"
    and ls': "ls' = checkpoint v a' ?ls2"
    by (auto simp: epoch_def Let_def split: sum.splits)
  have inv1: "train_inv T a cfg0 ls1" by (rule train_batches_inv [OF b assms(2)])
  then have inv2: "train_inv T a cfg0 ?ls2"
    by (auto simp: train_inv_def split: option.splits)
  have mv: "min_val ?ls2 = min_val ls" "best_local ?ls2 = best_local ls"
    using train_batches_frame [OF b] by simp_all
  from val inv2 have a': "a' = a"
    by (auto simp: validation_def train_inv_def split: option.splits sum.splits)
  from val inv2 obtain cfg u where cfg: "cfg0 = Some cfg" "cfg ''uncertainty'' = Some u"
    and v: "v = val_mse_de T u (heap (inst ?ls2) a)"
    by (auto simp: validation_def train_inv_def getitem_def split: option.splits sum.splits)
  have mo: "model (inst ?ls2) = Some a" "config (inst ?ls2) = Some cfg"
    using inv2 cfg by (simp_all add: train_inv_def)
  show ?thesis
  proof (cases "fl_less v (min_val ls)")
    case True
    then have l: "ls' = ?ls2\<lparr>min_val := v, best_local := Some (nxt (inst ?ls2)),
                      inst := (inst ?ls2)\<lparr>heap := (heap (inst ?ls2))(nxt (inst ?ls2) := heap (inst ?ls2) a),
                                            nxt := Suc (nxt (inst ?ls2))\<rparr>\<rparr>"
      using ls' a' mv by (simp add: checkpoint_def deepcopy_def)
    have nv: "v \<noteq> NaN" using True fl_less_not_NaN by blast
    have an: "a < nxt (inst ?ls2)" using inv2 by (simp add: train_inv_def)
    have 1: "validation T ls' = Inr (v, a)"
      using mo cfg v an unfolding l by (simp add: validation_def getitem_def)
    have 2: "train_inv T a cfg0 ls'"
      using inv2 mo cfg v nv an unfolding l by (simp add: train_inv_def)
    have 3: "best_local ls' \<noteq> best_local ls"
      using inv2 mv unfolding l by (auto simp: train_inv_def split: option.splits)
    from 1 2 3 True show ?thesis unfolding l by auto
  next
    case False
    then have l: "ls' = ?ls2" using ls' mv by (simp add: checkpoint_def)
    from val a' inv2 mv False show ?thesis unfolding l by auto
  qed
qed

lemma run_epochs_inv:
  assumes "run_epochs T n ls = (None, ls')" and "train_inv T a cfg0 ls"
  shows "train_inv T a cfg0 ls' \<and> fl_le (min_val ls') (min_val ls)"
  using assms
proof (induction n arbitrary: ls)
  case 0
  then show ?case by (simp add: train_inv_def fl_le_refl)
next
  case (Suc n)
  from Suc.prems(1) obtain ls1 where e: "epoch T ls = (None, ls1)"
    and r: "run_epochs T n ls1 = (None, ls')"
    by (auto split: prod.splits option.splits)
  from epoch_inv [OF e Suc.prems(2)] obtain v where inv1: "train_inv T a cfg0 ls1"
    and m: "min_val ls1 = (if fl_less v (min_val ls) then v else min_val ls)"
    by blast
  have "fl_le (min_val ls1) (min_val ls)"
    using m Suc.prems(2) by (auto simp: fl_le_def train_inv_def)
  with Suc.IH [OF r inv1] show ?case
    by (auto intro: fl_le_trans)
qed

lemma run_epochs_append:
  "run_epochs T i ls = (None, ls') \<Longrightarrow> run_epochs T (i + j) ls = run_epochs T j ls'"
  by (induction i arbitrary: ls) (auto split: prod.splits option.splits)

lemma train_start_inv:
  assumes "model self = Some a" and "a < nxt self"
  shows "train_inv T a (config self) (train_start T lr wd a self)"
  using assms by (simp add: train_inv_def train_start_def to_device_def)

text \<open>
  Claim C5. Take any epoch of \<open>train\<close> that completes, after \<open>i\<close> completed epochs and
  followed by \<open>j\<close> more, and let \<open>v\<close> be its validation metric. The local best model is
  replaced in that epoch exactly when \<open>v\<close> is strictly less than the running minimum, which
  then becomes \<open>v\<close> and otherwise stays (a tie or a NaN replaces nothing). The running
  minimum never increases from one epoch to a later one, it is never strictly greater
  than the metric of any epoch run, and the model retained at the end is an object other
  than the current model whose validation metric is the running minimum; it is the one
  \<open>train\<close> assigns to \<open>best_model\<close>.
\<close>

theorem train_best_model_selection:
  assumes "model self = Some a" and "a < nxt self"
    and "run_epochs T i (train_start T lr wd a self) = (None, ls1)"
    and "epoch T ls1 = (None, ls2)"
    and "run_epochs T j ls2 = (None, ls3)"
  shows "\<exists>v cfg u. validation T ls2 = Inr (v, a)
           \<and> config self = Some cfg \<and> cfg ''uncertainty'' = Some u
           \<and> (best_local ls2 \<noteq> best_local ls1) = fl_less v (min_val ls1)
           \<and> min_val ls2 = (if fl_less v (min_val ls1) then v else min_val ls1)
           \<and> fl_le (min_val ls2) (min_val ls1)
           \<and> fl_le (min_val ls3) (min_val ls2)
           \<and> \<not> fl_less v (min_val ls3)
           \<and> (\<forall>b. best_local ls3 = Some b \<longrightarrow>
                  b \<noteq> a \<and> val_mse_de T u (heap (inst ls3) b) = min_val ls3
                  \<and> (int (i + Suc j) = epochs \<longrightarrow>
                       train T epochs lr wd self = (Inr (), (inst ls3)\<lparr>best_model := Some b\<rparr>)))"
proof -
  note inv0 = train_start_inv [OF assms(1,2), of T lr wd]
  from run_epochs_inv [OF assms(3) inv0]
  have inv1: "train_inv T a (config self) ls1" by simp
  from epoch_inv [OF assms(4) inv1] obtain v where
    val: "validation T ls2 = Inr (v, a)" and inv2: "train_inv T a (config self) ls2"
    and rep: "(best_local ls2 \<noteq> best_local ls1) = fl_less v (min_val ls1)"
    and mv: "min_val ls2 = (if fl_less v (min_val ls1) then v else min_val ls1)"
    by blast
  from run_epochs_inv [OF assms(5) inv2]
  have inv3: "train_inv T a (config self) ls3" and le3: "fl_le (min_val ls3) (min_val ls2)"
    by simp_all
  from val inv2 obtain cfg u where cfg: "config self = Some cfg" "cfg ''uncertainty'' = Some u"
    by (auto simp: validation_def train_inv_def getitem_def split: option.splits sum.splits)
  have le2: "fl_le (min_val ls2) (min_val ls1)"
    using mv inv1 by (auto simp: fl_le_def train_inv_def)
  have nw: "\<not> fl_less v (min_val ls3)"
  proof
    assume "fl_less v (min_val ls3)"
    then have "fl_less v (min_val ls2)" using le3 by (rule fl_less_le_trans)
    then show False using mv by (auto simp: fl_less_irrefl split: if_splits)
  qed
  have run: "run_epochs T (i + Suc j) (train_start T lr wd a self) = (None, ls3)"
    using run_epochs_append [OF assms(3), of "Suc j"] assms(4,5) by simp
  have best: "\<forall>b. best_local ls3 = Some b \<longrightarrow>
                  b \<noteq> a \<and> val_mse_de T u (heap (inst ls3) b) = min_val ls3
                  \<and> (int (i + Suc j) = epochs \<longrightarrow>
                       train T epochs lr wd self = (Inr (), (inst ls3)\<lparr>best_model := Some b\<rparr>))"
  proof (intro allI impI conjI)
    fix b assume b: "best_local ls3 = Some b"
    show "b \<noteq> a" using inv3 b by (simp add: train_inv_def)
    show "val_mse_de T u (heap (inst ls3) b) = min_val ls3"
      using inv3 b cfg by (simp add: train_inv_def)
    assume "int (i + Suc j) = epochs"
    then have "nat epochs = i + Suc j" by auto
    then show "train T epochs lr wd self = (Inr (), (inst ls3)\<lparr>best_model := Some b\<rparr>)"
      using run b assms(1) by (simp add: train_def)
  qed
  from val cfg rep mv le2 le3 nw best show ?thesis by blast
qed

lemma ex_clip:
  "clip_grad_value 1 [''w'' \<mapsto> [10, - 10], ''b'' \<mapsto> [1 / 4]] = [''w'' \<mapsto> [1, - 1], ''b'' \<mapsto> [1 / 4]]"
  by (auto simp: clip_grad_value_def fun_eq_iff clamp_def)

lemma ex_T_sel:
  "train_loader ex_T = [1]"
  "Adam ex_T ps lr wd = lr"
  "optimizer_step ex_T lr ps g =
     (lr, map (\<lambda>(k, t). (k, case g k of None \<Rightarrow> t
                              | Some gt \<Rightarrow> map (\<lambda>(p, d). p - lr * d) (zip t gt))) ps)"
  "scheduler_step ex_T lr = lr / 2"
  "val_mse_de ex_T u m = (case map_of (params m) ''w'' of
                            Some (x # _) \<Rightarrow> Fin (x * x) | _ \<Rightarrow> NaN)"
  by (simp_all add: ex_T_def)

lemma ex_init_nxt: "nxt ex_init = 2"
  by (simp add: ex_init_def ex_fresh_def PertNet_init_def model_initialize_ok)

lemmas ex_train_simps =
  epoch_def train_step_def validation_def checkpoint_def deepcopy_def
  Let_def split_def ex_ls0_eq ex_init_config ex_compute_grad ex_clip getitem_def
  ex_init_uncertainty ex_T_sel ex_ls0_def train_start_def to_device_def ex_init_eq ex_init_nxt

lemma ex_epochs:
  "fst (run_epochs ex_T (Suc 0) ex_ls0) = None"
  "fst (epoch ex_T (snd (run_epochs ex_T (Suc 0) ex_ls0))) = None"
  "fst (run_epochs ex_T (Suc 0) (snd (epoch ex_T (snd (run_epochs ex_T (Suc 0) ex_ls0))))) = None"
  "best_local (snd (run_epochs ex_T (Suc 0) (snd (epoch ex_T (snd (run_epochs ex_T (Suc 0) ex_ls0))))))
     = Some 2"
  "min_val (snd (run_epochs ex_T (Suc 0) ex_ls0)) = Fin 0"
  by (simp_all add: ex_train_simps)

theorem train_best_model_selection_witness:
  "fst (train ex_T 3 1 (5 / 10000) ex_init) = Inr ()
   \<and> best_model (snd (train ex_T 3 1 (5 / 10000) ex_init)) = Some 2
   \<and> min_val (snd (run_epochs ex_T 1 ex_ls0)) = Fin 0
   \<and> validation ex_T (snd (epoch ex_T (snd (run_epochs ex_T 1 ex_ls0)))) = Inr (Fin (1 / 4), 0)
   \<and> best_local (snd (epoch ex_T (snd (run_epochs ex_T 1 ex_ls0))))
       = best_local (snd (run_epochs ex_T 1 ex_ls0))"
proof -
  let ?ls1 = "snd (run_epochs ex_T (Suc 0) ex_ls0)"
  let ?ls2 = "snd (epoch ex_T ?ls1)"
  let ?ls3 = "snd (run_epochs ex_T (Suc 0) ?ls2)"
  have m: "model ex_init = Some 0" and n: "0 < nxt ex_init"
    by (simp_all add: ex_init_eq ex_init_nxt)
  have r1: "run_epochs ex_T (Suc 0) (train_start ex_T 1 (5 / 10000) 0 ex_init) = (None, ?ls1)"
    using ex_epochs(1) by (simp add: prod_eq_iff ex_ls0_def)
  have r2: "epoch ex_T ?ls1 = (None, ?ls2)"
    using ex_epochs(2) by (simp add: prod_eq_iff)
  have r3: "run_epochs ex_T (Suc 0) ?ls2 = (None, ?ls3)"
    using ex_epochs(3) by (simp add: prod_eq_iff)
  from train_best_model_selection [OF m n r1 r2 r3, of 3]
  obtain v where v: "validation ex_T ?ls2 = Inr (v, 0)"
    and rep: "(best_local ?ls2 \<noteq> best_local ?ls1) = fl_less v (min_val ?ls1)"
    and tr: "\<forall>b. best_local ?ls3 = Some b \<longrightarrow>
               (int (Suc 0 + Suc (Suc 0)) = 3 \<longrightarrow>
                  train ex_T 3 1 (5 / 10000) ex_init = (Inr (), (inst ?ls3)\<lparr>best_model := Some b\<rparr>))"
    by blast
  from tr ex_epochs(4)
  have t: "train ex_T 3 1 (5 / 10000) ex_init = (Inr (), (inst ?ls3)\<lparr>best_model := Some 2\<rparr>)"
    by simp
  have v': "validation ex_T ?ls2 = Inr (Fin (1 / 4), 0)"
    by (simp add: ex_train_simps)
  with v have "v = Fin (1 / 4)" by simp
  with rep ex_epochs(5) have "best_local ?ls2 = best_local ?ls1" by simp
  with t v' ex_epochs(5) show ?thesis by simp
qed

section \<open>Properties of \<open>save_model\<close> followed by \<open>load_pretrained\<close>\<close>

lemma map_of_refill:
  assumes "distinct (map fst sd)" and "map fst ps = map fst sd"
  shows "map (\<lambda>(k, t). (k, case map_of sd k of None \<Rightarrow> t | Some v \<Rightarrow> v)) ps = sd"
proof (rule nth_equalityI)
  show len: "length (map (\<lambda>(k, t). (k, case map_of sd k of None \<Rightarrow> t | Some v \<Rightarrow> v)) ps) = length sd"
    using assms(2) by (metis length_map)
  fix i assume "i < length (map (\<lambda>(k, t). (k, case map_of sd k of None \<Rightarrow> t | Some v \<Rightarrow> v)) ps)"
  then have i: "i < length ps" "i < length sd" using len by simp_all
  have k: "fst (ps ! i) = fst (sd ! i)"
    using assms(2) i by (metis nth_map)
  have "map_of sd (fst (sd ! i)) = Some (snd (sd ! i))"
    using assms(1) i by (simp add: map_of_eq_Some_iff)
  then show "map (\<lambda>(k, t). (k, case map_of sd k of None \<Rightarrow> t | Some v \<Rightarrow> v)) ps ! i = sd ! i"
    using i k by (simp add: split_def prod_eq_iff)
qed

lemma load_state_dict_ok:
  assumes "distinct (map fst sd)" and "map fst (params m) = map fst sd"
    and "map (\<lambda>(k, t). length t) (params m) = map (\<lambda>(k, t). length t) sd"
  shows "load_state_dict sd m = Inr (m\<lparr>params := sd\<rparr>)"
proof -
  have 1: "list_all (\<lambda>(k, t). case map_of sd k of None \<Rightarrow> False
                              | Some v \<Rightarrow> length v = length t) (params m)"
    unfolding list_all_length
  proof (intro allI impI)
    fix i assume i: "i < length (params m)"
    then have j: "i < length sd" using assms(2) by (metis length_map)
    have k: "fst (params m ! i) = fst (sd ! i)"
      using assms(2) i j by (metis nth_map)
    have l: "length (snd (params m ! i)) = length (snd (sd ! i))"
      using arg_cong [OF assms(3), of "\<lambda>xs. xs ! i"] i j by (simp add: split_def)
    have "map_of sd (fst (sd ! i)) = Some (snd (sd ! i))"
      using assms(1) j by (simp add: map_of_eq_Some_iff)
    then show "case params m ! i of (k, t) \<Rightarrow>
                 (case map_of sd k of None \<Rightarrow> False | Some v \<Rightarrow> length v = length t)"
      using k l by (simp add: split_def)
  qed
  have 2: "list_all (\<lambda>(k, v). k \<in> fst ` set (params m)) sd"
  proof -
    have "fst ` set (params m) = fst ` set sd"
      using arg_cong [OF assms(2), of set] by simp
    then show ?thesis by (force simp: list_all_iff)
  qed
  show ?thesis
    using 1 2 by (simp add: load_state_dict_def map_of_refill [OF assms(1,2)])
qed

lemma strip_module_plain:
  "sd \<noteq> [] \<Longrightarrow> take 7 (fst (hd sd)) \<noteq> ''module.'' \<Longrightarrow> strip_module sd = Inr sd"
  by (cases sd) (auto simp: strip_module_def)

lemma save_model_ok:
  assumes "config self = Some cfg" and "best_model self = Some b" and "dir_usable fs path"
  shows "fst (save_model path self fs) = Inr ()
         \<and> files (snd (save_model path self fs)) (path, ''config.pkl'') = Some (Pickled cfg)
         \<and> files (snd (save_model path self fs)) (path, ''model.pt'')
             = Some (TorchSaved (params (heap self b)))"
proof -
  from assms(3) obtain fs1 where e: "ensure_dir path fs = Inr fs1" and d: "is_dir fs1 path"
    by (auto simp: dir_usable_def split: sum.splits)
  show ?thesis
    using assms(1,2) e d by (simp add: save_model_def write_file_def is_dir_def)
qed

lemma basename_no_slash: "CHR ''/'' \<notin> set p \<Longrightarrow> basename p = p"
proof -
  assume "CHR ''/'' \<notin> set p"
  then have "takeWhile (\<lambda>c. c \<noteq> CHR ''/'') (rev p) = rev p"
    by (intro takeWhile_eq_all_conv [THEN iffD2]) auto
  then show ?thesis unfolding basename_def by (simp only: rev_rev_ident)
qed

lemma ensure_dir_files: "ensure_dir path fs = Inr fs1 \<Longrightarrow> files fs1 = files fs"
  by (auto simp: ensure_dir_def os_mkdir_def split: if_splits)

lemma dir_usable_fresh:
  assumes "CHR ''/'' \<notin> set path" and "path \<noteq> []" and "files fs ([], path) = None"
  shows "dir_usable fs path"
proof -
  have "\<not> os_path_exists fs path \<or> is_dir fs path"
    using assms by (simp add: os_path_exists_def is_file_def dirname_no_slash basename_no_slash)
  then show ?thesis
    using assms(1,2)
    by (auto simp: dir_usable_def ensure_dir_def os_mkdir_def is_dir_def dirname_no_slash
          os_path_exists_def)
qed

lemma save_model_other_dir:
  assumes "d \<noteq> path"
  shows "files (snd (save_model path self fs)) (d, n) = files fs (d, n)"
proof (cases "ensure_dir path fs")
  case (Inl e)
  then show ?thesis by (simp add: save_model_def)
next
  case (Inr fs1)
  then have f: "files fs1 = files fs" by (rule ensure_dir_files)
  show ?thesis
    using Inr f assms
    by (simp add: save_model_def write_file_def split: option.splits)
qed

lemma dom_stripped:
  assumes "dom cfg \<subseteq> set hyper_names \<union> {''device'', ''num_genes''}"
  shows "dom (cfg(''device'' := None, ''num_genes'' := None)) \<subseteq> set hyper_names"
  using assms by (auto split: if_splits)

lemma load_pretrained_ok:
  assumes "files fs (path, ''config.pkl'') = Some (Pickled loaded)"
    and "files fs (path, ''model.pt'') = Some (TorchSaved sd)"
    and "loaded ''device'' \<noteq> None" and "loaded ''num_genes'' \<noteq> None"
    and "dom loaded \<subseteq> set hyper_names \<union> {''device'', ''num_genes''}"
    and "sd \<noteq> []" and "take 7 (fst (hd sd)) \<noteq> ''module.''" and "distinct (map fst sd)"
    and "map fst (PertNet_Model M (built_config M
            (loaded(''device'' := None, ''num_genes'' := None)) fresh)) = map fst sd"
    and "map (\<lambda>(k, t). length t) (PertNet_Model M (built_config M
            (loaded(''device'' := None, ''num_genes'' := None)) fresh))
          = map (\<lambda>(k, t). length t) sd"
  shows "fst (load_pretrained M path fs fresh) = Inr ()
         \<and> config (snd (load_pretrained M path fs fresh))
             = Some (loaded(''device'' := None, ''num_genes'' := None))
         \<and> model (snd (load_pretrained M path fs fresh)) = Some (nxt fresh)
         \<and> best_model (snd (load_pretrained M path fs fresh)) = Some (nxt fresh)
         \<and> params (heap (snd (load_pretrained M path fs fresh)) (nxt fresh)) = sd"
proof -
  let ?kw = "loaded(''device'' := None, ''num_genes'' := None)"
  let ?m = "\<lparr>params = PertNet_Model M (built_config M ?kw fresh), grad = Map.empty,
             dev = device fresh\<rparr>"
  have d: "dom ?kw \<subseteq> set hyper_names" by (rule dom_stripped [OF assms(5)])
  have l: "load_state_dict sd ?m = Inr (?m\<lparr>params := sd\<rparr>)"
    by (rule load_state_dict_ok) (simp_all add: assms(8,9,10))
  show ?thesis
    using assms(1-4)
    by (simp add: load_pretrained_def Let_def model_initialize_ok [OF d]
          built_config_def [symmetric] strip_module_plain [OF assms(6,7)] l to_device_def)
qed


lemma built_config_keys:
  "built_config M kwargs self ''device'' \<noteq> None"
  "built_config M kwargs self ''num_genes'' \<noteq> None"
  "dom (built_config M kwargs self) \<subseteq> set hyper_names \<union> {''device'', ''num_genes''}"
  by (auto simp: built_config_def fill_go_def fill_coexpress_def config_literal_def
        hyper_names_def split_def Let_def split: if_splits)

text \<open>
  Claim C1, as amended. Take an instance whose configuration is the one
  \<open>model_initialize\<close> builds (it holds \<open>device\<close> and \<open>num_genes\<close> beside the keyword
  parameters), whose best model has a first parameter name that does not start with
  \<open>module.\<close>, a target directory that exists or can be created, and a fresh instance
  on a matching dataset context: the predictor it
  builds from the restored keyword arguments has the parameter names and sizes of the
  saved state. Then \<open>save_model\<close> followed by \<open>load_pretrained\<close> succeeds, the
  configuration of the fresh instance is the saved one without \<open>device\<close> and
  \<open>num_genes\<close>, its parameter tensors are the saved ones, and its current and best
  model are the one restored object.
\<close>

theorem save_then_restore:
  assumes "config self = Some cfg" and "best_model self = Some b"
    and "dir_usable fs path"
    and "cfg ''device'' \<noteq> None" and "cfg ''num_genes'' \<noteq> None"
    and "dom cfg \<subseteq> set hyper_names \<union> {''device'', ''num_genes''}"
    and "params (heap self b) \<noteq> []"
    and "take 7 (fst (hd (params (heap self b)))) \<noteq> ''module.''"
    and "distinct (map fst (params (heap self b)))"
    and "map fst (PertNet_Model M (built_config M
            (cfg(''device'' := None, ''num_genes'' := None)) fresh))
          = map fst (params (heap self b))"
    and "map (\<lambda>(k, t). length t) (PertNet_Model M (built_config M
            (cfg(''device'' := None, ''num_genes'' := None)) fresh))
          = map (\<lambda>(k, t). length t) (params (heap self b))"
  shows "fst (save_model path self fs) = Inr ()
         \<and> fst (load_pretrained M path (snd (save_model path self fs)) fresh) = Inr ()
         \<and> config (snd (load_pretrained M path (snd (save_model path self fs)) fresh))
             = Some (cfg(''device'' := None, ''num_genes'' := None))
         \<and> model (snd (load_pretrained M path (snd (save_model path self fs)) fresh))
             = Some (nxt fresh)
         \<and> best_model (snd (load_pretrained M path (snd (save_model path self fs)) fresh))
             = Some (nxt fresh)
         \<and> params (heap (snd (load_pretrained M path (snd (save_model path self fs)) fresh))
              (nxt fresh)) = params (heap self b)"
proof -
  from save_model_ok [OF assms(1,2,3)]
  have s: "fst (save_model path self fs) = Inr ()"
    and c: "files (snd (save_model path self fs)) (path, ''config.pkl'') = Some (Pickled cfg)"
    and p: "files (snd (save_model path self fs)) (path, ''model.pt'')
             = Some (TorchSaved (params (heap self b)))"
    by simp_all
  from s load_pretrained_ok [OF c p assms(4-11)] show ?thesis by simp
qed


lemma ex_fresh_nxt: "nxt ex_fresh = 0"
  by (simp add: ex_fresh_def PertNet_init_def)

lemma ex_trained_eq:
  "config ex_trained = Some (built_config ex_M Map.empty ex_fresh)"
  "best_model ex_trained = Some 2"
  "params (heap ex_trained 2) = [(''w'', [0, 3]), (''b'', [- (1 / 4)])]"
  "params (heap ex_trained 0) = [(''w'', [- (3 / 4), 15 / 4]), (''b'', [- (7 / 16)])]"
  by (simp_all add: ex_trained_def train_def numeral_3_eq_3 built_config_def ex_train_simps)

lemma ex_M_model: "PertNet_Model ex_M c = [(''w'', [1, 2]), (''b'', [0])]"
  by (simp add: ex_M_def)

theorem save_then_restore_witness:
  "fst (save_model ''t'' ex_trained ex_fs) = Inr ()
   \<and> fst (load_pretrained ex_M ''t'' (snd (save_model ''t'' ex_trained ex_fs)) ex_fresh) = Inr ()
   \<and> config (snd (load_pretrained ex_M ''t'' (snd (save_model ''t'' ex_trained ex_fs)) ex_fresh))
       = Some ((built_config ex_M Map.empty ex_fresh)(''device'' := None, ''num_genes'' := None))
   \<and> model (snd (load_pretrained ex_M ''t'' (snd (save_model ''t'' ex_trained ex_fs)) ex_fresh))
       = Some 0
   \<and> best_model (snd (load_pretrained ex_M ''t'' (snd (save_model ''t'' ex_trained ex_fs)) ex_fresh))
       = Some 0
   \<and> params (heap (snd (load_pretrained ex_M ''t'' (snd (save_model ''t'' ex_trained ex_fs))
                          ex_fresh)) 0) = [(''w'', [0, 3]), (''b'', [- (1 / 4)])]"
proof -
  have 1: "params (heap ex_trained 2) \<noteq> []"
    and 2: "take 7 (fst (hd (params (heap ex_trained 2)))) \<noteq> ''module.''"
    and 3: "distinct (map fst (params (heap ex_trained 2)))"
    and 4: "map fst (PertNet_Model ex_M (built_config ex_M
              ((built_config ex_M Map.empty ex_fresh)(''device'' := None, ''num_genes'' := None))
              ex_fresh)) = map fst (params (heap ex_trained 2))"
    and 5: "map (\<lambda>(k, t). length t) (PertNet_Model ex_M (built_config ex_M
              ((built_config ex_M Map.empty ex_fresh)(''device'' := None, ''num_genes'' := None))
              ex_fresh)) = map (\<lambda>(k, t). length t) (params (heap ex_trained 2))"
    by (simp_all add: ex_trained_eq ex_M_model)
  have u: "dir_usable ex_fs ''t''"
    by (rule dir_usable_fresh) (simp_all add: ex_fs_def)
  from save_then_restore [OF ex_trained_eq(1,2) u built_config_keys 1 2 3 4 5]
  show ?thesis
    by (simp add: ex_fresh_nxt ex_trained_eq)
qed


lemma load_pretrained_no_device:
  assumes "files fs (path, ''config.pkl'') = Some (Pickled loaded)" and "loaded ''device'' = None"
  shows "load_pretrained M path fs self = (Inl (KeyError ''device''), self)"
  using assms by (simp add: load_pretrained_def)

lemma ex_init_built: "config ex_init = Some (built_config ex_M Map.empty ex_fresh)"
  by (simp add: ex_init_config built_config_def)

lemma ex_restored_eq:
  "fst (load_pretrained ex_M ''d'' ex_fs_d ex_fresh) = Inr ()"
  "config ex_restored
     = Some ((built_config ex_M Map.empty ex_fresh)(''device'' := None, ''num_genes'' := None))"
  "model ex_restored = Some 0"
  "best_model ex_restored = Some 0"
  "params (heap ex_restored 0) = [(''w'', [1, 2]), (''b'', [0])]"
proof -
  have h: "params (heap ex_init (Suc 0)) = [(''w'', [1, 2]), (''b'', [0])]"
    using ex_init_eq(7) by simp
  have u: "dir_usable ex_fs ''d''"
    by (rule dir_usable_fresh) (simp_all add: ex_fs_def)
  from save_model_ok [OF ex_init_built ex_init_eq(5) u]
  have c: "files ex_fs_d (''d'', ''config.pkl'') = Some (Pickled (built_config ex_M Map.empty ex_fresh))"
    and p: "files ex_fs_d (''d'', ''model.pt'') = Some (TorchSaved [(''w'', [1, 2]), (''b'', [0])])"
    by (simp_all add: ex_fs_d_def h)
  have r: "fst (load_pretrained ex_M ''d'' ex_fs_d ex_fresh) = Inr ()
         \<and> config (snd (load_pretrained ex_M ''d'' ex_fs_d ex_fresh))
             = Some ((built_config ex_M Map.empty ex_fresh)(''device'' := None, ''num_genes'' := None))
         \<and> model (snd (load_pretrained ex_M ''d'' ex_fs_d ex_fresh)) = Some (nxt ex_fresh)
         \<and> best_model (snd (load_pretrained ex_M ''d'' ex_fs_d ex_fresh)) = Some (nxt ex_fresh)
         \<and> params (heap (snd (load_pretrained ex_M ''d'' ex_fs_d ex_fresh)) (nxt ex_fresh))
             = [(''w'', [1, 2]), (''b'', [0])]"
    by (rule load_pretrained_ok [OF c p built_config_keys]) (simp_all add: ex_M_model)
  from r show "fst (load_pretrained ex_M ''d'' ex_fs_d ex_fresh) = Inr ()"
    and "config ex_restored
     = Some ((built_config ex_M Map.empty ex_fresh)(''device'' := None, ''num_genes'' := None))"
    and "model ex_restored = Some 0" and "best_model ex_restored = Some 0"
    and "params (heap ex_restored 0) = [(''w'', [1, 2]), (''b'', [0])]"
    by (simp_all add: ex_restored_def ex_fresh_nxt)
qed

text \<open>
  An initialized instance for which the round trip fails: the configuration of a
  restored instance lacks \<open>device\<close> and \<open>num_genes\<close> (line 121), \<open>save_model\<close> writes
  it as it is, and \<open>load_pretrained\<close> on that directory raises \<open>KeyError\<close> at line 119.
\<close>

theorem restore_of_restored_counterexample:
  "config ex_restored \<noteq> None
   \<and> fst (save_model ''e'' ex_restored ex_fs_d) = Inr ()
   \<and> fst (load_pretrained ex_M ''e'' ex_fs_e ex_fresh) = Inl (KeyError ''device'')"
proof -
  have u: "dir_usable ex_fs_d ''e''"
    by (rule dir_usable_fresh) (simp_all add: ex_fs_d_def save_model_other_dir ex_fs_def)
  from save_model_ok [OF ex_restored_eq(2,4) u]
  have s: "fst (save_model ''e'' ex_restored ex_fs_d) = Inr ()"
    and c: "files ex_fs_e (''e'', ''config.pkl'')
              = Some (Pickled ((built_config ex_M Map.empty ex_fresh)
                                 (''device'' := None, ''num_genes'' := None)))"
    by (simp_all add: ex_fs_e_def)
  have "load_pretrained ex_M ''e'' ex_fs_e ex_fresh = (Inl (KeyError ''device''), ex_fresh)"
    by (rule load_pretrained_no_device [OF c]) simp
  with s ex_restored_eq(2) show ?thesis by simp
qed


lemma ex_Tnan_sel:
  "train_loader ex_Tnan = [1]"
  "Adam ex_Tnan ps lr wd = lr"
  "optimizer_step ex_Tnan lr ps g =
     (lr, map (\<lambda>(k, t). (k, case g k of None \<Rightarrow> t
                              | Some gt \<Rightarrow> map (\<lambda>(p, d). p - lr * d) (zip t gt))) ps)"
  "scheduler_step ex_Tnan lr = lr / 2"
  "val_mse_de ex_Tnan u m = NaN"
  "loss_backward ex_Tnan unc reg dl m 1 = [''w'' \<mapsto> [10, - 10], ''b'' \<mapsto> [1 / 4]]"
  by (simp_all add: ex_Tnan_def ex_T_def)

lemma ex_built_lookup:
  "built_config ex_M Map.empty ex_fresh ''uncertainty'' = Some (PBool False)"
  "built_config ex_M Map.empty ex_fresh ''direction_lambda'' = Some (PFloat (1 / 10))"
  by (simp_all add: built_config_def ex_init_uncertainty ex_init_keys)

lemma ex_Tnan_compute_grad:
  assumes "cfg ''uncertainty'' = Some (PBool False)" and "cfg ''direction_lambda'' = Some dl"
  shows "compute_grad ex_Tnan cfg m 1 = Inr (m\<lparr>grad := [''w'' \<mapsto> [10, - 10], ''b'' \<mapsto> [1 / 4]]\<rparr>)"
  using assms by (simp add: compute_grad_def getitem_def ex_Tnan_sel)

lemma ex_Tnan_train:
  assumes "model self = Some 0" and "best_model self = Some b"
    and "config self = Some cfg"
    and "cfg ''uncertainty'' = Some (PBool False)" and "cfg ''direction_lambda'' = Some dl"
    and "params (heap self 0) = [(''w'', [1, 2]), (''b'', [0])]"
  shows "fst (train ex_Tnan 1 1 (5 / 10000) self) = Inl (UnboundLocalError ''best_model'')
         \<and> best_model (snd (train ex_Tnan 1 1 (5 / 10000) self)) = Some b
         \<and> model (snd (train ex_Tnan 1 1 (5 / 10000) self)) = Some 0
         \<and> params (heap (snd (train ex_Tnan 1 1 (5 / 10000) self)) 0)
             = [(''w'', [0, 3]), (''b'', [- (1 / 4)])]
         \<and> (b \<noteq> 0 \<longrightarrow> heap (snd (train ex_Tnan 1 1 (5 / 10000) self)) b = heap self b)"
  using assms
  by (simp add: train_def train_start_def to_device_def epoch_def train_step_def
        validation_def checkpoint_def Let_def split_def getitem_def ex_Tnan_sel
        ex_Tnan_compute_grad [OF assms(4,5)] ex_clip)

text \<open>
  Claim C8 at \<open>load_pretrained\<close>. After a restore the attributes \<open>model\<close> and
  \<open>best_model\<close> name one object (line 135 assigns the model itself, not a copy), so a
  training step on the current model changes the best model: a \<open>train\<close> call that ends
  in an exception after its first step leaves \<open>best_model\<close> with the stepped parameters.
  After \<open>model_initialize\<close>, which copies (line 113), the same call leaves the best
  model's parameters as they were.
\<close>

theorem load_pretrained_aliases_best_model:
  "fst (load_pretrained ex_M ''d'' ex_fs_d ex_fresh) = Inr ()
   \<and> model ex_restored = Some 0 \<and> best_model ex_restored = Some 0
   \<and> params (heap ex_restored 0) = [(''w'', [1, 2]), (''b'', [0])]
   \<and> fst (train ex_Tnan 1 1 (5 / 10000) ex_restored) = Inl (UnboundLocalError ''best_model'')
   \<and> best_model (snd (train ex_Tnan 1 1 (5 / 10000) ex_restored)) = Some 0
   \<and> params (heap (snd (train ex_Tnan 1 1 (5 / 10000) ex_restored)) 0)
       = [(''w'', [0, 3]), (''b'', [- (1 / 4)])]
   \<and> model ex_init = Some 0 \<and> best_model ex_init = Some 1
   \<and> best_model (snd (train ex_Tnan 1 1 (5 / 10000) ex_init)) = Some 1
   \<and> params (heap (snd (train ex_Tnan 1 1 (5 / 10000) ex_init)) 1)
       = [(''w'', [1, 2]), (''b'', [0])]"
proof -
  have r: "((built_config ex_M Map.empty ex_fresh)(''device'' := None, ''num_genes'' := None))
             ''uncertainty'' = Some (PBool False)"
    "((built_config ex_M Map.empty ex_fresh)(''device'' := None, ''num_genes'' := None))
             ''direction_lambda'' = Some (PFloat (1 / 10))"
    by (simp_all add: ex_built_lookup)
  have p0: "params (heap ex_init 0) = [(''w'', [1, 2]), (''b'', [0])]"
    by (simp add: ex_init_eq)
  note a = ex_Tnan_train [OF ex_restored_eq(3,4,2) r ex_restored_eq(5)]
  note b = ex_Tnan_train [OF ex_init_eq(4,5) ex_init_built ex_built_lookup p0]
  have h: "params (heap ex_init (Suc 0)) = [(''w'', [1, 2]), (''b'', [0])]"
    using ex_init_eq(7) by simp
  from a b ex_restored_eq show ?thesis
    by (simp add: ex_init_eq h)
qed

end
